theory Spec2Isabelle
  imports Complex_Main "HOL-Library.Multiset" "HOL-Library.AList" "HOL-Library.Char_ord" "HOL-Library.List_Lexorder"
begin

section \<open>Numbers\<close>

text \<open>
  The numeric columns of the three input tables hold finite numbers; they are modelled as
  exact rationals, so rounding of binary floating point is outside the model. What the
  derivations depend on is what numpy does when a column is divided by a column holding a
  zero: no exception, but \<open>inf\<close>, \<open>-inf\<close> or \<open>NaN\<close>. Derived columns therefore range over
  \<open>fnum\<close>, the finite numbers with these three special values.
\<close>

datatype fnum = Fin rat | PInf | NInf | NaN

text \<open>\<open>Series / Series\<close> on numeric columns (numpy true division, never raises).\<close>

definition np_truediv :: "rat \<Rightarrow> rat \<Rightarrow> fnum" where
  "np_truediv x y =
     (if y \<noteq> 0 then Fin (x / y)
      else if x = 0 then NaN
      else if 0 < x then PInf
      else NInf)"

text \<open>\<open>Series * c\<close> and Python's \<open>float * c\<close> for a finite constant \<open>c\<close>.\<close>

fun fmul :: "fnum \<Rightarrow> rat \<Rightarrow> fnum" where
  "fmul (Fin x) c = Fin (x * c)"
| "fmul PInf c = (if 0 < c then PInf else if c < 0 then NInf else NaN)"
| "fmul NInf c = (if 0 < c then NInf else if c < 0 then PInf else NaN)"
| "fmul NaN c = NaN"

text \<open>
  \<open>Series.replace([pd.NA, pd.NaT], 0)\<close> and \<open>fillna(0)\<close>: in a float column the only value
  that is missing is \<open>NaN\<close>; both calls put 0 there and leave every other value, the two
  infinities included, as it is.
\<close>

fun replace_na_nat :: "fnum \<Rightarrow> fnum" where
  "replace_na_nat NaN = Fin 0"
| "replace_na_nat x = x"

fun fillna0 :: "fnum \<Rightarrow> fnum" where
  "fillna0 NaN = Fin 0"
| "fillna0 x = x"

section \<open>Exceptions\<close>

datatype py_error = KeyError string | ZeroDivisionError | TypeError

definition and_then :: "py_error + 'a \<Rightarrow> ('a \<Rightarrow> py_error + 'b) \<Rightarrow> py_error + 'b" where
  "and_then m f = (case m of Inl e \<Rightarrow> Inl e | Inr x \<Rightarrow> f x)"

text \<open>Python's \<open>float / float\<close>: raises on a zero divisor.\<close>

definition py_truediv :: "rat \<Rightarrow> rat \<Rightarrow> py_error + rat" where
  "py_truediv x y = (if y = 0 then Inl ZeroDivisionError else Inr (x / y))"

text \<open>The same for a dividend that may be infinite; \<open>fdiv\<close> is the quotient by a divisor that is not zero.\<close>

fun fdiv :: "fnum \<Rightarrow> rat \<Rightarrow> fnum" where
  "fdiv (Fin v) y = Fin (v / y)"
| "fdiv PInf y = (if 0 < y then PInf else NInf)"
| "fdiv NInf y = (if 0 < y then NInf else PInf)"
| "fdiv NaN y = NaN"

definition py_truediv_f :: "fnum \<Rightarrow> rat \<Rightarrow> py_error + fnum" where
  "py_truediv_f x y = (if y = 0 then Inl ZeroDivisionError else Inr (fdiv x y))"

section \<open>Sorting and grouping of data frames\<close>

text \<open>
  \<open>DataFrame.sort_values\<close> on one column computes an indexer with \<open>nargsort\<close> and takes
  the rows in that order. The source never passes \<open>kind\<close>, so the indexer comes from
  numpy's \<open>argsort(kind="quicksort")\<close>, which sorts but is not stable: the order it gives
  to equal keys is not specified. The argsort is therefore a parameter \<open>a\<close> of every
  function that sorts on a column that can hold equal keys, and \<open>argsort_ok\<close> says what
  numpy promises of it: the result is a permutation of the positions that puts the keys in
  ascending order.
\<close>

type_synonym argsort = "rat list \<Rightarrow> nat list"

definition argsort_ok :: "argsort \<Rightarrow> bool" where
  "argsort_ok a =
     (\<forall>ks. mset (a ks) = mset [0..<length ks] \<and> sorted (map (\<lambda>i. ks ! i) (a ks)))"

text \<open>
  \<open>pandas.core.sorting.nargsort\<close> for keys without missing values: for a descending sort
  the keys and their positions are reversed, sorted ascending, and the indexer is reversed.
\<close>

definition nargsort :: "argsort \<Rightarrow> rat list \<Rightarrow> bool \<Rightarrow> nat list" where
  "nargsort a items ascending =
     (let idx = [0..<length items];
          non_nans = (if ascending then items else rev items);
          non_nan_idx = (if ascending then idx else rev idx);
          indexer = map (\<lambda>i. non_nan_idx ! i) (a non_nans)
      in if ascending then indexer else rev indexer)"

definition sort_values :: "argsort \<Rightarrow> ('r \<Rightarrow> rat) \<Rightarrow> bool \<Rightarrow> 'r list \<Rightarrow> 'r list" where
  "sort_values a col ascending rows =
     map (\<lambda>i. rows ! i) (nargsort a (map col rows) ascending)"

text \<open>
  Two argsorts that meet \<open>argsort_ok\<close>. \<open>stable_argsort\<close> inserts the positions by key and
  so keeps equal keys in their order. \<open>tie_reversing_argsort\<close> does the same below four
  keys and inserts the positions from the last to the first from four keys on, which
  reverses equal keys. It agrees with numpy's default \<open>argsort\<close> where the order that
  \<open>sort_values\<close> gives to tied rows has been observed: \<open>[0, 1]\<close> on two equal keys and
  \<open>[3, 2, 1, 0]\<close> on four.
\<close>

definition stable_argsort :: argsort where
  "stable_argsort ks = sort_key (\<lambda>i. ks ! i) [0..<length ks]"


text \<open>
  \<open>groupby(key)\<close> with the defaults \<open>sort=True, dropna=True\<close>: one group per distinct key
  that is not missing, in ascending order of the key; rows whose key is missing
  (\<open>None\<close>, \<open>NaN\<close>) belong to no group.
\<close>

definition group_keys :: "('r \<Rightarrow> 'k::linorder option) \<Rightarrow> 'r list \<Rightarrow> 'k list" where
  "group_keys key rows = sort (remdups (List.map_filter key rows))"

definition group_rows :: "('r \<Rightarrow> 'k option) \<Rightarrow> 'k \<Rightarrow> 'r list \<Rightarrow> 'r list" where
  "group_rows key k rows = filter (\<lambda>r. key r = Some k) rows"

text \<open>The aggregation \<open>"sum"\<close> of one column, and \<open>Series.sum()\<close>.\<close>

definition col_sum :: "('r \<Rightarrow> rat) \<Rightarrow> 'r list \<Rightarrow> rat" where
  "col_sum col rows = sum_list (map col rows)"

section \<open>Tables\<close>

text \<open>
  A data frame is the list of its rows; a row is a record with one field per column.
  A missing value in a column of strings or dates is \<open>None\<close>.
\<close>

datatype timestamp = Timestamp (ts_year: nat) (ts_month: nat) (ts_day: nat)

record TeamTargets =
  revenue_target :: rat
  collection_target :: rat
  utilization_target_hours :: rat
  profitability_target_pct :: rat

record invoice =
  invoice_number :: "string option"
  contact :: "string option"
  status :: "string option"
  date :: "timestamp option"
  due_date :: "timestamp option"
  amount_due :: rat
  amount_paid :: rat
  total :: rat

record time_entry =
  date :: "timestamp option"
  team :: "string option"
  project :: "string option"
  client :: "string option"
  hours :: rat
  billable :: bool
  billable_amount :: rat

record deal =
  deal_name :: "string option"
  team :: "string option"
  close_date :: "timestamp option"
  deal_value :: rat
  cost_to_deliver :: rat

text \<open>The working copies \<open>df\<close> with the columns each function adds.\<close>

record invoice_month = invoice +
  month :: "string option"

record invoice_year = invoice +
  year :: "nat option"

record deal_p = deal +
  profit :: rat

record deal_profit = deal_p +
  profit_margin_pct :: fnum

text \<open>The output tables.\<close>

record monthly_row =
  month :: string
  total_billed :: rat
  amount_collected :: rat
  outstanding :: rat

record yearly_row =
  year :: nat
  total_billed :: rat
  amount_collected :: rat
  outstanding :: rat

record team_hours =
  team :: string
  hours :: rat
  billable_amount :: rat

record team_sums =
  team :: string
  revenue :: rat
  profit :: rat

record team_profit = team_sums +
  profitability_pct :: fnum

record merged_row =
  team :: string
  revenue :: rat
  profit :: rat
  profitability_pct :: fnum
  hours :: rat
  billable_amount :: rat

record scorecard_row =
  team :: string
  revenue :: rat
  profit :: rat
  profitability_pct :: fnum
  hours :: rat
  collected_estimate :: rat
  revenue_vs_target_pct :: rat
  collection_vs_target_pct :: rat
  utilization_vs_target_pct :: rat
  profitability_vs_target_pct :: fnum

section \<open>Billing aggregator\<close>

text \<open>
  \<open>pd.to_datetime(..., errors="coerce")\<close> yields \<open>NaT\<close> (here \<open>None\<close>) for a date that does
  not parse. \<open>.dt.to_period("M").astype(str)\<close> prints a timestamp as \<open>YYYY-MM\<close>;
  \<open>.dt.year\<close> gives the year, and \<open>NaN\<close> for \<open>NaT\<close>.

  What \<open>astype(str)\<close> makes of a missing period depends on the version of pandas, and the
  repository pins none: before pandas 3 the cell becomes the string \<open>NaT\<close>, from pandas 3 on
  it stays missing. The rendering is therefore a parameter \<open>nat_str\<close> of the model:
  \<open>Some ''NaT''\<close> for the first behaviour, \<open>None\<close> for the second. A cell of the month column
  is \<open>Some\<close> string, or \<open>None\<close> when it is missing.
\<close>

definition digit_char :: "nat \<Rightarrow> char" where
  "digit_char d = char_of (48 + d)"

fun decimal :: "nat \<Rightarrow> string" where
  "decimal n = (if n < 10 then [digit_char n] else decimal (n div 10) @ [digit_char (n mod 10)])"

definition zfill :: "nat \<Rightarrow> string \<Rightarrow> string" where
  "zfill w s = replicate (w - length s) (CHR ''0'') @ s"

definition month_str :: "timestamp \<Rightarrow> string" where
  "month_str t = zfill 4 (decimal (ts_year t)) @ ''-'' @ zfill 2 (decimal (ts_month t))"

definition period_M_str :: "string option \<Rightarrow> timestamp option \<Rightarrow> string option" where
  "period_M_str nat_str d =
     (case d of
        None \<Rightarrow> nat_str
      | Some t \<Rightarrow> Some (month_str t))"

definition dt_year :: "timestamp option \<Rightarrow> nat option" where
  "dt_year d = map_option ts_year d"

text \<open>Line 18, \<open>df["month"] = ...\<close>, and line 28, \<open>df["year"] = ...\<close>.\<close>

definition assign_month :: "string option \<Rightarrow> invoice list \<Rightarrow> invoice_month list" where
  "assign_month nat_str df =
     map (\<lambda>r. invoice.extend r \<lparr>invoice_month.month = period_M_str nat_str (invoice.date r)\<rparr>)
       df"

definition assign_year :: "invoice list \<Rightarrow> invoice_year list" where
  "assign_year df =
     map (\<lambda>r. invoice.extend r \<lparr>invoice_year.year = dt_year (invoice.date r)\<rparr>) df"

text \<open>
  Lines 20--21 and 30--31, \<open>groupby(...).agg(...)\<close>, which leaves out the rows whose key is
  missing. The year of a row whose date did not parse is missing; its month is missing
  exactly when \<open>astype(str)\<close> has left it so.
\<close>

definition groupby_month_agg :: "invoice_month list \<Rightarrow> monthly_row list" where
  "groupby_month_agg df =
     (let key = invoice_month.month
      in map (\<lambda>k. \<lparr>monthly_row.month = k,
                     monthly_row.total_billed = col_sum total (group_rows key k df),
                     monthly_row.amount_collected = col_sum amount_paid (group_rows key k df),
                     monthly_row.outstanding = col_sum amount_due (group_rows key k df)\<rparr>)
           (group_keys key df))"

definition groupby_year_agg :: "invoice_year list \<Rightarrow> yearly_row list" where
  "groupby_year_agg df =
     (let key = invoice_year.year
      in map (\<lambda>k. \<lparr>yearly_row.year = k,
                     yearly_row.total_billed = col_sum total (group_rows key k df),
                     yearly_row.amount_collected = col_sum amount_paid (group_rows key k df),
                     yearly_row.outstanding = col_sum amount_due (group_rows key k df)\<rparr>)
           (group_keys key df))"

text \<open>
  After \<open>groupby\<close> the keys are distinct and already ascending, so the final
  \<open>sort_values\<close> on the key column has one possible result whatever the sorting algorithm.
\<close>

definition monthly_billing :: "string option \<Rightarrow> invoice list \<Rightarrow> monthly_row list" where
  "monthly_billing nat_str invoices =
     (let df = invoices;
          df = assign_month nat_str df
      in sort_key monthly_row.month (groupby_month_agg df))"

definition yearly_billing :: "invoice list \<Rightarrow> yearly_row list" where
  "yearly_billing invoices =
     (let df = invoices;
          df = assign_year df
      in sort_key yearly_row.year (groupby_year_agg df))"

section \<open>Time aggregator\<close>

definition groupby_team_agg_hours :: "time_entry list \<Rightarrow> team_hours list" where
  "groupby_team_agg_hours time_entries =
     map (\<lambda>k. \<lparr>team_hours.team = k,
                 team_hours.hours = col_sum time_entry.hours (group_rows time_entry.team k time_entries),
                 team_hours.billable_amount =
                   col_sum time_entry.billable_amount (group_rows time_entry.team k time_entries)\<rparr>)
       (group_keys time_entry.team time_entries)"

definition time_recorded_per_team :: "argsort \<Rightarrow> time_entry list \<Rightarrow> team_hours list" where
  "time_recorded_per_team a time_entries =
     sort_values a team_hours.hours False (groupby_team_agg_hours time_entries)"

section \<open>Profitability calculator\<close>

text \<open>Line 46, \<open>df["profit"] = ...\<close>, and line 47, \<open>df["profit_margin_pct"] = ...\<close>.\<close>

definition assign_profit :: "deal list \<Rightarrow> deal_p list" where
  "assign_profit df =
     map (\<lambda>d. deal.extend d \<lparr>deal_p.profit = deal_value d - cost_to_deliver d\<rparr>) df"

definition assign_profit_margin_pct :: "deal_p list \<Rightarrow> deal_profit list" where
  "assign_profit_margin_pct df =
     map (\<lambda>d. deal_p.extend d
            \<lparr>profit_margin_pct =
               fmul (fillna0 (replace_na_nat (np_truediv (deal_p.profit d) (deal_value d)))) 100\<rparr>) df"

definition deal_profitability :: "argsort \<Rightarrow> deal list \<Rightarrow> deal_profit list" where
  "deal_profitability a deals =
     (let df = deals;
          df = assign_profit df;
          df = assign_profit_margin_pct df
      in sort_values a deal_p.profit False df)"

section \<open>Team scorecard composer\<close>

text \<open>Lines 58--61, revenue and profit per team, and line 62, their ratio.\<close>

definition groupby_team_agg_profit :: "deal_profit list \<Rightarrow> team_sums list" where
  "groupby_team_agg_profit profitability =
     map (\<lambda>k. \<lparr>team_sums.team = k,
                 team_sums.revenue = col_sum deal_value (group_rows deal.team k profitability),
                 team_sums.profit = col_sum deal_p.profit (group_rows deal.team k profitability)\<rparr>)
       (group_keys deal.team profitability)"

definition assign_profitability_pct :: "team_sums list \<Rightarrow> team_profit list" where
  "assign_profitability_pct by_team_profit =
     map (\<lambda>r. team_sums.extend r
            \<lparr>team_profit.profitability_pct =
               fmul (fillna0 (np_truediv (team_sums.profit r) (team_sums.revenue r))) 100\<rparr>)
       by_team_profit"

text \<open>
  Line 66, \<open>by_team_profit.merge(time_team, on="team", how="outer").fillna(0)\<close>. Both
  sides come out of a \<open>groupby\<close> on \<open>team\<close>, so a team is the key of at most one row on
  each side and the outer join has one row for each team of either side, in ascending order
  of the team. The columns of the side that has no row for the team are \<open>NaN\<close>, which
  \<open>fillna(0)\<close> turns into 0.
\<close>

definition merge_outer_fillna0 :: "team_profit list \<Rightarrow> team_hours list \<Rightarrow> merged_row list" where
  "merge_outer_fillna0 left right =
     map (\<lambda>k. let l = find (\<lambda>x. team_sums.team x = k) left;
                  r = find (\<lambda>y. team_hours.team y = k) right
              in \<lparr>merged_row.team = k,
                  merged_row.revenue = (case l of None \<Rightarrow> 0 | Some x \<Rightarrow> team_sums.revenue x),
                  merged_row.profit = (case l of None \<Rightarrow> 0 | Some x \<Rightarrow> team_sums.profit x),
                  merged_row.profitability_pct =
                    (case l of None \<Rightarrow> Fin 0 | Some x \<Rightarrow> fillna0 (team_profit.profitability_pct x)),
                  merged_row.hours = (case r of None \<Rightarrow> 0 | Some y \<Rightarrow> team_hours.hours y),
                  merged_row.billable_amount =
                    (case r of None \<Rightarrow> 0 | Some y \<Rightarrow> team_hours.billable_amount y)\<rparr>)
       (sort (remdups (map team_sums.team left @ map team_hours.team right)))"

text \<open>
  Lines 72--75, \<open>targets.get(team, TeamTargets(0, 0, 0, 0))\<close>: the targets of the team, and
  four zeros for a team that is not a key of the dict.
\<close>

definition targets_get :: "(string \<rightharpoonup> TeamTargets) \<Rightarrow> string \<Rightarrow> TeamTargets" where
  "targets_get targets t =
     (case targets t of
        Some x \<Rightarrow> x
      | None \<Rightarrow> \<lparr>revenue_target = 0, collection_target = 0,
                 utilization_target_hours = 0, profitability_target_pct = 0\<rparr>)"

text \<open>
  The body of the loop, lines 71--98, for one row of \<open>merged\<close>; \<open>revenue_sum\<close> is
  \<open>merged["revenue"].sum()\<close>. A division by a target raises on a zero divisor, as
  Python's division of floats does (where the dividend is a numpy float the division would
  not raise, but it is only reached with a divisor that is not zero, and then both give the
  quotient); the division by \<open>revenue_sum\<close> is numpy's and is also only reached with a
  divisor that is not zero.
\<close>

definition scorecard_row_of ::
  "(string \<rightharpoonup> TeamTargets) \<Rightarrow> rat \<Rightarrow> rat \<Rightarrow> merged_row \<Rightarrow> py_error + scorecard_row" where
  "scorecard_row_of targets total_collected revenue_sum row =
     (let team = merged_row.team row;
          t = targets_get targets team;
          revenue = merged_row.revenue row;
          profit = merged_row.profit row;
          hours = merged_row.hours row;
          profitability_pct = merged_row.profitability_pct row;
          collection_share = (if revenue_sum = 0 then 0 else revenue / revenue_sum);
          collected_team = total_collected * collection_share
      in and_then (if revenue_target t = 0 then Inr 0
                   else and_then (py_truediv revenue (revenue_target t)) (\<lambda>q. Inr (q * 100)))
           (\<lambda>revenue_vs.
         and_then (if collection_target t = 0 then Inr 0
                   else and_then (py_truediv collected_team (collection_target t)) (\<lambda>q. Inr (q * 100)))
           (\<lambda>collection_vs.
         and_then (if utilization_target_hours t = 0 then Inr 0
                   else and_then (py_truediv hours (utilization_target_hours t)) (\<lambda>q. Inr (q * 100)))
           (\<lambda>utilization_vs.
         and_then (if profitability_target_pct t = 0 then Inr (Fin 0)
                   else and_then (py_truediv_f profitability_pct (profitability_target_pct t))
                          (\<lambda>q. Inr (fmul q 100)))
           (\<lambda>profitability_vs.
         Inr \<lparr>scorecard_row.team = team,
              scorecard_row.revenue = revenue,
              scorecard_row.profit = profit,
              scorecard_row.profitability_pct = profitability_pct,
              scorecard_row.hours = hours,
              collected_estimate = collected_team,
              revenue_vs_target_pct = revenue_vs,
              collection_vs_target_pct = collection_vs,
              utilization_vs_target_pct = utilization_vs,
              profitability_vs_target_pct = profitability_vs\<rparr>)))))"

fun iterrows :: "('r \<Rightarrow> py_error + 's) \<Rightarrow> 'r list \<Rightarrow> py_error + 's list" where
  "iterrows f [] = Inr []"
| "iterrows f (r # rs) = and_then (f r) (\<lambda>x. and_then (iterrows f rs) (\<lambda>xs. Inr (x # xs)))"

text \<open>
  Line 99: \<open>pd.DataFrame(rows)\<close> of an empty list of rows is a frame without columns, and
  \<open>sort_values("revenue")\<close> on it raises \<open>KeyError\<close>.
\<close>

definition scorecard_frame_sorted :: "argsort \<Rightarrow> scorecard_row list \<Rightarrow> py_error + scorecard_row list" where
  "scorecard_frame_sorted a rows =
     (if rows = [] then Inl (KeyError ''revenue'')
      else Inr (sort_values a scorecard_row.revenue False rows))"

text \<open>Lines 57--66, the table \<open>merged\<close>.\<close>

definition merged_frame :: "argsort \<Rightarrow> deal list \<Rightarrow> time_entry list \<Rightarrow> merged_row list" where
  "merged_frame a deals time_entries =
     (let profitability = deal_profitability a deals;
          by_team_profit = groupby_team_agg_profit profitability;
          by_team_profit = assign_profitability_pct by_team_profit;
          time_team = time_recorded_per_team a time_entries
      in merge_outer_fillna0 by_team_profit time_team)"

definition team_scorecard ::
  "argsort \<Rightarrow> deal list \<Rightarrow> time_entry list \<Rightarrow> invoice list \<Rightarrow> (string \<rightharpoonup> TeamTargets)
     \<Rightarrow> py_error + scorecard_row list" where
  "team_scorecard a deals time_entries invoices targets =
     (let merged = merged_frame a deals time_entries;
          total_collected = col_sum amount_paid invoices
      in and_then
           (iterrows (scorecard_row_of targets total_collected (col_sum merged_row.revenue merged)) merged)
           (scorecard_frame_sorted a))"

text \<open>
  The quantities the properties of the scorecard are stated with: the teams that occur in
  the deals or in the time entries, and the sums over the deals and the entries of a team.
\<close>

definition teams_of :: "deal list \<Rightarrow> time_entry list \<Rightarrow> string set" where
  "teams_of deals time_entries =
     set (List.map_filter deal.team deals) \<union> set (List.map_filter time_entry.team time_entries)"

definition team_revenue :: "deal list \<Rightarrow> string \<Rightarrow> rat" where
  "team_revenue deals t = col_sum deal_value (filter (\<lambda>d. deal.team d = Some t) deals)"

definition team_profit_sum :: "deal list \<Rightarrow> string \<Rightarrow> rat" where
  "team_profit_sum deals t =
     col_sum (\<lambda>d. deal_value d - cost_to_deliver d) (filter (\<lambda>d. deal.team d = Some t) deals)"

definition team_hours_sum :: "time_entry list \<Rightarrow> string \<Rightarrow> rat" where
  "team_hours_sum time_entries t =
     col_sum time_entry.hours (filter (\<lambda>e. time_entry.team e = Some t) time_entries)"

section \<open>Acquisition of deals\<close>

text \<open>
  The part of \<open>DataConnector._load_monday_deals\<close> after the response has been decoded,
  lines 65--80. An item has a name and a list of column values, each an id with a text that
  may be null. A cell of the frame built from them is a text, a number, a date or missing.
  The parsers of pandas, \<open>to_numeric\<close> and \<open>to_datetime\<close>, are parameters; they answer
  \<open>None\<close> for a text they do not accept.
\<close>

datatype cell = Text string | Number rat | Datetime timestamp | Missing

record monday_item =
  item_name :: string
  column_values :: "(string \<times> string option) list"

record frame =
  frame_columns :: "string list"
  frame_rows :: "(string \<Rightarrow> cell) list"

definition mapped :: "monday_item \<Rightarrow> (string \<times> cell) list" where
  "mapped it =
     fold (\<lambda>col. AList.update (fst col) (case snd col of None \<Rightarrow> Missing | Some s \<Rightarrow> Text s))
       (column_values it) [(''deal_name'', Text (item_name it))]"

text \<open>
  \<open>pd.DataFrame(rows)\<close> for a list of dicts: the columns are the keys of all the dicts, and
  a row has a missing value in the columns its dict has no key for.
\<close>

definition DataFrame :: "(string \<times> cell) list list \<Rightarrow> frame" where
  "DataFrame dicts =
     \<lparr>frame_columns = remdups (concat (map (map fst) dicts)),
      frame_rows = map (\<lambda>d c. case map_of d c of None \<Rightarrow> Missing | Some v \<Rightarrow> v) dicts\<rparr>"

definition to_numeric_coerce :: "(string \<Rightarrow> rat option) \<Rightarrow> cell \<Rightarrow> cell" where
  "to_numeric_coerce parse c =
     (case c of
        Text s \<Rightarrow> (case parse s of None \<Rightarrow> Missing | Some x \<Rightarrow> Number x)
      | Number x \<Rightarrow> Number x
      | _ \<Rightarrow> Missing)"

definition to_datetime_coerce :: "(string \<Rightarrow> timestamp option) \<Rightarrow> cell \<Rightarrow> cell" where
  "to_datetime_coerce parse c =
     (case c of
        Text s \<Rightarrow> (case parse s of None \<Rightarrow> Missing | Some t \<Rightarrow> Datetime t)
      | Datetime t \<Rightarrow> Datetime t
      | _ \<Rightarrow> Missing)"

definition fillna0_cell :: "cell \<Rightarrow> cell" where
  "fillna0_cell c = (case c of Missing \<Rightarrow> Number 0 | _ \<Rightarrow> c)"

text \<open>\<open>df[c] = f(df[c])\<close> for a column that exists, and \<open>df[c] = v\<close> for a scalar.\<close>

definition apply_column :: "string \<Rightarrow> (cell \<Rightarrow> cell) \<Rightarrow> frame \<Rightarrow> frame" where
  "apply_column c f df = df\<lparr>frame_rows := map (\<lambda>r. r(c := f (r c))) (frame_rows df)\<rparr>"

definition assign_scalar :: "string \<Rightarrow> cell \<Rightarrow> frame \<Rightarrow> frame" where
  "assign_scalar c v df =
     \<lparr>frame_columns = (if c \<in> set (frame_columns df) then frame_columns df else frame_columns df @ [c]),
      frame_rows = map (\<lambda>r. r(c := v)) (frame_rows df)\<rparr>"

definition load_monday_deals ::
  "(string \<Rightarrow> rat option) \<Rightarrow> (string \<Rightarrow> timestamp option) \<Rightarrow> monday_item list \<Rightarrow> frame" where
  "load_monday_deals to_numeric to_datetime items =
     (let df = DataFrame (map mapped items);
          df = (if ''deal_value'' \<in> set (frame_columns df)
                then apply_column ''deal_value'' (\<lambda>c. fillna0_cell (to_numeric_coerce to_numeric c)) df
                else df);
          df = (if ''cost_to_deliver'' \<in> set (frame_columns df)
                then apply_column ''cost_to_deliver'' (\<lambda>c. fillna0_cell (to_numeric_coerce to_numeric c)) df
                else df);
          df = (if ''close_date'' \<in> set (frame_columns df)
                then apply_column ''close_date'' (to_datetime_coerce to_datetime) df
                else df);
          df = (if ''team'' \<notin> set (frame_columns df)
                then assign_scalar ''team'' (Text ''Unknown'') df
                else df)
      in df)"

text \<open>
  The deal table as the derivation layer reads it from such a frame: the columns
  \<open>deal_value\<close>, \<open>cost_to_deliver\<close> and \<open>team\<close> are looked up (lines 46 and 58) and a
  column that is not there raises \<open>KeyError\<close>; arithmetic on a cell that is not a number
  raises \<open>TypeError\<close>.
\<close>

definition deal_of_row :: "(string \<Rightarrow> cell) \<Rightarrow> py_error + deal" where
  "deal_of_row r =
     (case (r ''deal_value'', r ''cost_to_deliver'') of
        (Number v, Number c) \<Rightarrow>
          Inr \<lparr>deal_name = (case r ''deal_name'' of Text s \<Rightarrow> Some s | _ \<Rightarrow> None),
               deal.team = (case r ''team'' of Text s \<Rightarrow> Some s | _ \<Rightarrow> None),
               close_date = (case r ''close_date'' of Datetime t \<Rightarrow> Some t | _ \<Rightarrow> None),
               deal_value = v,
               cost_to_deliver = c\<rparr>
      | _ \<Rightarrow> Inl TypeError)"

definition deals_of_frame :: "frame \<Rightarrow> py_error + deal list" where
  "deals_of_frame df =
     (if ''deal_value'' \<notin> set (frame_columns df) then Inl (KeyError ''deal_value'')
      else if ''cost_to_deliver'' \<notin> set (frame_columns df) then Inl (KeyError ''cost_to_deliver'')
      else if ''team'' \<notin> set (frame_columns df) then Inl (KeyError ''team'')
      else iterrows deal_of_row (frame_rows df))"

text \<open>A parser of unsigned decimal numerals, to run the loader on concrete items.\<close>

definition digit_val :: "char \<Rightarrow> nat option" where
  "digit_val c = (if CHR ''0'' \<le> c \<and> c \<le> CHR ''9'' then Some (of_char c - 48) else None)"

fun parse_nat_acc :: "nat \<Rightarrow> string \<Rightarrow> nat option" where
  "parse_nat_acc n [] = Some n"
| "parse_nat_acc n (c # cs) =
     (case digit_val c of None \<Rightarrow> None | Some d \<Rightarrow> parse_nat_acc (10 * n + d) cs)"

definition parse_unsigned :: "string \<Rightarrow> rat option" where
  "parse_unsigned s = (if s = [] then None else map_option of_nat (parse_nat_acc 0 s))"

section \<open>The tables as objects\<close>

text \<open>
  To say that a function leaves its arguments as they are, the data frames and the dict of
  targets are objects in a store and a function gets references to them. The store is the
  list of the objects made so far, a reference is a position in it. What makes a new
  object and what writes into an existing one follows pandas: \<open>copy()\<close>, \<open>groupby().agg()\<close>,
  \<open>sort_values()\<close>, \<open>merge()\<close>, \<open>fillna()\<close> and \<open>pd.DataFrame()\<close> return a new frame;
  \<open>df[c] = ...\<close> writes the column into the frame \<open>df\<close> refers to; \<open>dict.get\<close> and reading a
  column write nothing. A function returns the store it leaves behind together with the
  reference to its result or the exception it raised. A reference to an object of the
  wrong kind raises \<open>TypeError\<close>.
\<close>

datatype obj =
    Invoices "invoice list"
  | InvoicesMonth "invoice_month list"
  | InvoicesYear "invoice_year list"
  | Monthly "monthly_row list"
  | Yearly "yearly_row list"
  | TimeEntries "time_entry list"
  | TeamHours "team_hours list"
  | Deals "deal list"
  | DealsP "deal_p list"
  | DealsProfit "deal_profit list"
  | TeamSums "team_sums list"
  | TeamProfit "team_profit list"
  | Merged "merged_row list"
  | Scorecard "scorecard_row list"
  | Targets "string \<rightharpoonup> TeamTargets"

type_synonym store = "obj list"

definition lookup :: "store \<Rightarrow> nat \<Rightarrow> obj option" where
  "lookup h r = (if r < length h then Some (h ! r) else None)"

definition new :: "store \<Rightarrow> obj \<Rightarrow> store \<times> nat" where
  "new h x = (h @ [x], length h)"

definition setitem :: "store \<Rightarrow> nat \<Rightarrow> obj \<Rightarrow> store" where
  "setitem h r x = h[r := x]"

text \<open>What a caller sees of a call: the object returned, or the exception.\<close>

definition outcome :: "store \<times> (py_error + nat) \<Rightarrow> py_error + obj" where
  "outcome res = (case snd res of Inl e \<Rightarrow> Inl e | Inr r \<Rightarrow> Inr (fst res ! r))"

definition monthly_billing_st ::
  "string option \<Rightarrow> store \<Rightarrow> nat \<Rightarrow> store \<times> (py_error + nat)" where
  "monthly_billing_st nat_str h invoices =
     (case lookup h invoices of
        Some (Invoices rows) \<Rightarrow>
          (let (h, df) = new h (Invoices rows);
               h = setitem h df (InvoicesMonth (assign_month nat_str rows));
               (h, grouped) = new h (Monthly (groupby_month_agg (assign_month nat_str rows)));
               (h, result) = new h (Monthly (sort_key monthly_row.month
                                               (groupby_month_agg (assign_month nat_str rows))))
           in (h, Inr result))
      | _ \<Rightarrow> (h, Inl TypeError))"

definition yearly_billing_st :: "store \<Rightarrow> nat \<Rightarrow> store \<times> (py_error + nat)" where
  "yearly_billing_st h invoices =
     (case lookup h invoices of
        Some (Invoices rows) \<Rightarrow>
          (let (h, df) = new h (Invoices rows);
               h = setitem h df (InvoicesYear (assign_year rows));
               (h, grouped) = new h (Yearly (groupby_year_agg (assign_year rows)));
               (h, result) = new h (Yearly (sort_key yearly_row.year
                                              (groupby_year_agg (assign_year rows))))
           in (h, Inr result))
      | _ \<Rightarrow> (h, Inl TypeError))"

definition time_recorded_per_team_st ::
  "argsort \<Rightarrow> store \<Rightarrow> nat \<Rightarrow> store \<times> (py_error + nat)" where
  "time_recorded_per_team_st a h time_entries =
     (case lookup h time_entries of
        Some (TimeEntries rows) \<Rightarrow>
          (let (h, grouped) = new h (TeamHours (groupby_team_agg_hours rows));
               (h, result) = new h (TeamHours (sort_values a team_hours.hours False
                                                 (groupby_team_agg_hours rows)))
           in (h, Inr result))
      | _ \<Rightarrow> (h, Inl TypeError))"

definition deal_profitability_st ::
  "argsort \<Rightarrow> store \<Rightarrow> nat \<Rightarrow> store \<times> (py_error + nat)" where
  "deal_profitability_st a h deals =
     (case lookup h deals of
        Some (Deals rows) \<Rightarrow>
          (let (h, df) = new h (Deals rows);
               h = setitem h df (DealsP (assign_profit rows));
               h = setitem h df (DealsProfit (assign_profit_margin_pct (assign_profit rows)));
               (h, result) = new h (DealsProfit (sort_values a deal_p.profit False
                                      (assign_profit_margin_pct (assign_profit rows))))
           in (h, Inr result))
      | _ \<Rightarrow> (h, Inl TypeError))"

text \<open>
  \<open>team_scorecard\<close> calls the two functions above on its own arguments and reads what
  they return; the list \<open>rows\<close> of the loop is local and becomes a frame in line 99.
  The frame \<open>joined\<close> that \<open>merge\<close> returns is only the receiver of \<open>fillna(0)\<close>, which
  returns the frame \<open>merged\<close>; \<open>joined\<close> is never read again, and the store keeps it with
  the zeros already filled in.
\<close>

definition scorecard_loop_st ::
  "argsort \<Rightarrow> store \<Rightarrow> team_profit list \<Rightarrow> team_hours list \<Rightarrow> invoice list
     \<Rightarrow> (string \<rightharpoonup> TeamTargets) \<Rightarrow> store \<times> (py_error + nat)" where
  "scorecard_loop_st a h l_rows r_rows i_rows t =
     (let (h, joined) = new h (Merged (merge_outer_fillna0 l_rows r_rows));
          (h, merged) = new h (Merged (merge_outer_fillna0 l_rows r_rows));
          m_rows = merge_outer_fillna0 l_rows r_rows;
          total_collected = col_sum amount_paid i_rows
      in case iterrows (scorecard_row_of t total_collected (col_sum merged_row.revenue m_rows)) m_rows of
           Inl e \<Rightarrow> (h, Inl e)
         | Inr rows \<Rightarrow>
             (let (h, frame) = new h (Scorecard rows)
              in case scorecard_frame_sorted a rows of
                   Inl e \<Rightarrow> (h, Inl e)
                 | Inr sorted_rows \<Rightarrow>
                     (let (h, result) = new h (Scorecard sorted_rows) in (h, Inr result))))"

definition team_scorecard_st ::
  "argsort \<Rightarrow> store \<Rightarrow> nat \<Rightarrow> nat \<Rightarrow> nat \<Rightarrow> nat \<Rightarrow> store \<times> (py_error + nat)" where
  "team_scorecard_st a h deals time_entries invoices targets =
     (case deal_profitability_st a h deals of
        (h, Inl e) \<Rightarrow> (h, Inl e)
      | (h, Inr profitability) \<Rightarrow>
          (case lookup h profitability of
             Some (DealsProfit p_rows) \<Rightarrow>
               (let (h, by_team_profit) = new h (TeamSums (groupby_team_agg_profit p_rows));
                    h = setitem h by_team_profit
                          (TeamProfit (assign_profitability_pct (groupby_team_agg_profit p_rows)))
                in case time_recorded_per_team_st a h time_entries of
                     (h, Inl e) \<Rightarrow> (h, Inl e)
                   | (h, Inr time_team) \<Rightarrow>
                       (case lookup h by_team_profit of
                          Some (TeamProfit l_rows) \<Rightarrow>
                            (case lookup h time_team of
                               Some (TeamHours r_rows) \<Rightarrow>
                                 (case lookup h invoices of
                                    Some (Invoices i_rows) \<Rightarrow>
                                      (case lookup h targets of
                                         Some (Targets t) \<Rightarrow>
                                           scorecard_loop_st a h l_rows r_rows i_rows t
                                       | _ \<Rightarrow> (h, Inl TypeError))
                                  | _ \<Rightarrow> (h, Inl TypeError))
                             | _ \<Rightarrow> (h, Inl TypeError))
                        | _ \<Rightarrow> (h, Inl TypeError)))
           | _ \<Rightarrow> (h, Inl TypeError)))"

section \<open>Sorting: what every admissible argsort gives\<close>

lemma mset_map_nth_perm:
  assumes "mset p = mset [0..<length xs]"
  shows "mset (map (\<lambda>i. xs ! i) p) = mset xs"
proof -
  have "mset (map (\<lambda>i. xs ! i) p) = image_mset (\<lambda>i. xs ! i) (mset p)" by simp
  also have "\<dots> = image_mset (\<lambda>i. xs ! i) (mset [0..<length xs])" using assms by simp
  also have "\<dots> = mset (map (\<lambda>i. xs ! i) [0..<length xs])" by simp
  also have "\<dots> = mset xs" by (simp add: map_nth)
  finally show ?thesis .
qed

lemma argsort_ok_mset: "argsort_ok a \<Longrightarrow> mset (a ks) = mset [0..<length ks]"
  by (simp add: argsort_ok_def)



lemma mset_nargsort:
  assumes "argsort_ok a"
  shows "mset (nargsort a ks asc) = mset [0..<length ks]"
proof (cases asc)
  case True
  have "mset (map (\<lambda>i. [0..<length ks] ! i) (a ks)) = mset [0..<length ks]"
    by (rule mset_map_nth_perm) (simp add: argsort_ok_mset [OF assms])
  with True show ?thesis by (simp add: nargsort_def)
next
  case False
  have "mset (map (\<lambda>i. rev [0..<length ks] ! i) (a (rev ks))) = mset (rev [0..<length ks])"
    by (rule mset_map_nth_perm) (simp add: argsort_ok_mset [OF assms])
  with False show ?thesis by (simp add: nargsort_def)
qed

lemma mset_sort_values:
  assumes "argsort_ok a"
  shows "mset (sort_values a col asc rows) = mset rows"
  unfolding sort_values_def
  by (rule mset_map_nth_perm) (simp add: mset_nargsort [OF assms])

lemma set_sort_values: "argsort_ok a \<Longrightarrow> set (sort_values a col asc rows) = set rows"
  by (rule mset_eq_setD) (rule mset_sort_values)

lemma length_sort_values: "argsort_ok a \<Longrightarrow> length (sort_values a col asc rows) = length rows"
  by (rule mset_eq_length) (rule mset_sort_values)



lemma argsort_ok_stable: "argsort_ok stable_argsort"
  by (simp add: argsort_ok_def stable_argsort_def)


section \<open>Grouping: the groups partition the rows that have a key\<close>

lemma col_sum_mset: "mset xs = mset ys \<Longrightarrow> col_sum f xs = col_sum f ys"
proof -
  assume "mset xs = mset ys"
  then have "sum_mset (image_mset f (mset xs)) = sum_mset (image_mset f (mset ys))" by simp
  then show ?thesis by (simp add: col_sum_def sum_mset_sum_list [symmetric] del: sum_mset_sum_list)
qed

lemma col_sum_Nil [simp]: "col_sum f [] = 0"
  by (simp add: col_sum_def)

lemma col_sum_Cons [simp]: "col_sum f (x # xs) = f x + col_sum f xs"
  by (simp add: col_sum_def)

lemma col_sum_map: "col_sum f (map g xs) = col_sum (\<lambda>x. f (g x)) xs"
  by (simp add: col_sum_def comp_def)

lemma col_sum_map_sum: "col_sum f (map g ks) = (\<Sum>k\<leftarrow>ks. f (g k))"
  by (simp add: col_sum_def comp_def)

lemma set_map_filter_Some: "set (List.map_filter key rows) = {k. Some k \<in> key ` set rows}"
proof (induction rows)
  case Nil
  show ?case by (simp add: map_filter_simps)
next
  case (Cons r rows)
  show ?case
  proof (cases "key r")
    case None
    then show ?thesis using Cons.IH by (auto simp: map_filter_simps)
  next
    case (Some k)
    then show ?thesis using Cons.IH by (auto simp: map_filter_simps)
  qed
qed

lemma set_group_keys: "set (group_keys key rows) = {k. Some k \<in> key ` set rows}"
  by (simp add: group_keys_def set_map_filter_Some)

lemma distinct_group_keys: "distinct (group_keys key rows)"
  by (simp add: group_keys_def)

lemma sorted_group_keys: "sorted (group_keys key rows)"
  by (simp add: group_keys_def)

lemma sum_list_indicator:
  assumes "distinct ks"
  shows "(\<Sum>k\<leftarrow>ks. if c = Some k then (v::rat) else 0) = (if \<exists>k\<in>set ks. c = Some k then v else 0)"
  using assms by (induction ks) auto

lemma sum_over_groups:
  assumes "distinct ks"
  shows "(\<Sum>k\<leftarrow>ks. col_sum f (group_rows key k rows))
           = col_sum f (filter (\<lambda>r. \<exists>k\<in>set ks. key r = Some k) rows)"
proof (induction rows)
  case Nil
  show ?case by (simp add: group_rows_def)
next
  case (Cons r rows)
  have "(\<Sum>k\<leftarrow>ks. col_sum f (group_rows key k (r # rows)))
          = (\<Sum>k\<leftarrow>ks. (if key r = Some k then f r else 0) + col_sum f (group_rows key k rows))"
    by (rule arg_cong [where f = sum_list]) (simp add: group_rows_def)
  also have "\<dots> = (\<Sum>k\<leftarrow>ks. if key r = Some k then f r else 0)
                    + (\<Sum>k\<leftarrow>ks. col_sum f (group_rows key k rows))"
    by (simp add: sum_list_addf)
  also have "\<dots> = (if \<exists>k\<in>set ks. key r = Some k then f r else 0)
                    + col_sum f (filter (\<lambda>r. \<exists>k\<in>set ks. key r = Some k) rows)"
    by (simp only: sum_list_indicator [OF assms] Cons.IH)
  finally show ?case by simp
qed

lemma sum_groupby:
  "(\<Sum>k\<leftarrow>group_keys key rows. col_sum f (group_rows key k rows))
     = col_sum f (filter (\<lambda>r. key r \<noteq> None) rows)"
proof -
  have "filter (\<lambda>r. \<exists>k\<in>set (group_keys key rows). key r = Some k) rows
          = filter (\<lambda>r. key r \<noteq> None) rows"
  proof (rule filter_cong [OF refl])
    fix r assume "r \<in> set rows"
    then show "(\<exists>k\<in>set (group_keys key rows). key r = Some k) = (key r \<noteq> None)"
      by (cases "key r") (simp_all add: set_group_keys rev_image_eqI)
  qed
  then show ?thesis
    by (simp add: sum_over_groups [OF distinct_group_keys])
qed

section \<open>Billing totals\<close>

text \<open>
  Per month the three sums are those of the invoices whose month is not missing: all of
  them where \<open>astype(str)\<close> renders a missing period as a string, those whose date parsed
  where it leaves it missing. Per year they are those of the invoices whose date parsed.
\<close>

lemma period_M_str_rendered [simp]: "period_M_str (Some s) d \<noteq> None"
  by (cases d) (simp_all add: period_M_str_def)

lemma period_M_str_missing [simp]: "period_M_str None d = None \<longleftrightarrow> d = None"
  by (cases d) (simp_all add: period_M_str_def)

lemma filter_assign_month:
  "filter (\<lambda>r. invoice_month.month r \<noteq> None) (assign_month nat_str invoices)
     = assign_month nat_str
         (filter (\<lambda>i. period_M_str nat_str (invoice.date i) \<noteq> None) invoices)"
  by (induction invoices) (simp_all add: assign_month_def invoice.defs)

lemma monthly_total_billed:
  "col_sum monthly_row.total_billed (monthly_billing nat_str invoices)
     = col_sum total (filter (\<lambda>i. period_M_str nat_str (invoice.date i) \<noteq> None) invoices)"
proof -
  let ?df = "assign_month nat_str invoices"
  let ?key = "invoice_month.month"
  have "col_sum monthly_row.total_billed (monthly_billing nat_str invoices)
          = col_sum monthly_row.total_billed (groupby_month_agg ?df)"
    unfolding monthly_billing_def Let_def by (rule col_sum_mset) simp
  also have "\<dots> = (\<Sum>k\<leftarrow>group_keys ?key ?df. col_sum total (group_rows ?key k ?df))"
    by (simp add: groupby_month_agg_def Let_def col_sum_map_sum)
  also have "\<dots> = col_sum total (filter (\<lambda>r. invoice_month.month r \<noteq> None) ?df)"
    by (simp add: sum_groupby)
  also have "\<dots> = col_sum total
                      (filter (\<lambda>i. period_M_str nat_str (invoice.date i) \<noteq> None) invoices)"
    unfolding filter_assign_month by (simp add: assign_month_def col_sum_map invoice.defs)
  finally show ?thesis .
qed

lemma monthly_amount_collected:
  "col_sum monthly_row.amount_collected (monthly_billing nat_str invoices)
     = col_sum amount_paid
         (filter (\<lambda>i. period_M_str nat_str (invoice.date i) \<noteq> None) invoices)"
proof -
  let ?df = "assign_month nat_str invoices"
  let ?key = "invoice_month.month"
  have "col_sum monthly_row.amount_collected (monthly_billing nat_str invoices)
          = col_sum monthly_row.amount_collected (groupby_month_agg ?df)"
    unfolding monthly_billing_def Let_def by (rule col_sum_mset) simp
  also have "\<dots> = (\<Sum>k\<leftarrow>group_keys ?key ?df. col_sum amount_paid (group_rows ?key k ?df))"
    by (simp add: groupby_month_agg_def Let_def col_sum_map_sum)
  also have "\<dots> = col_sum amount_paid (filter (\<lambda>r. invoice_month.month r \<noteq> None) ?df)"
    by (simp add: sum_groupby)
  also have "\<dots> = col_sum amount_paid
                      (filter (\<lambda>i. period_M_str nat_str (invoice.date i) \<noteq> None) invoices)"
    unfolding filter_assign_month by (simp add: assign_month_def col_sum_map invoice.defs)
  finally show ?thesis .
qed

lemma monthly_outstanding:
  "col_sum monthly_row.outstanding (monthly_billing nat_str invoices)
     = col_sum amount_due
         (filter (\<lambda>i. period_M_str nat_str (invoice.date i) \<noteq> None) invoices)"
proof -
  let ?df = "assign_month nat_str invoices"
  let ?key = "invoice_month.month"
  have "col_sum monthly_row.outstanding (monthly_billing nat_str invoices)
          = col_sum monthly_row.outstanding (groupby_month_agg ?df)"
    unfolding monthly_billing_def Let_def by (rule col_sum_mset) simp
  also have "\<dots> = (\<Sum>k\<leftarrow>group_keys ?key ?df. col_sum amount_due (group_rows ?key k ?df))"
    by (simp add: groupby_month_agg_def Let_def col_sum_map_sum)
  also have "\<dots> = col_sum amount_due (filter (\<lambda>r. invoice_month.month r \<noteq> None) ?df)"
    by (simp add: sum_groupby)
  also have "\<dots> = col_sum amount_due
                      (filter (\<lambda>i. period_M_str nat_str (invoice.date i) \<noteq> None) invoices)"
    unfolding filter_assign_month by (simp add: assign_month_def col_sum_map invoice.defs)
  finally show ?thesis .
qed

lemma monthly_totals_rendered:
  "col_sum monthly_row.total_billed (monthly_billing (Some s) invoices) = col_sum total invoices"
  "col_sum monthly_row.amount_collected (monthly_billing (Some s) invoices)
     = col_sum amount_paid invoices"
  "col_sum monthly_row.outstanding (monthly_billing (Some s) invoices)
     = col_sum amount_due invoices"
  by (simp_all add: monthly_total_billed monthly_amount_collected monthly_outstanding)

lemma monthly_totals_missing:
  "col_sum monthly_row.total_billed (monthly_billing None invoices)
     = col_sum total (filter (\<lambda>i. invoice.date i \<noteq> None) invoices)"
  "col_sum monthly_row.amount_collected (monthly_billing None invoices)
     = col_sum amount_paid (filter (\<lambda>i. invoice.date i \<noteq> None) invoices)"
  "col_sum monthly_row.outstanding (monthly_billing None invoices)
     = col_sum amount_due (filter (\<lambda>i. invoice.date i \<noteq> None) invoices)"
  by (simp_all add: monthly_total_billed monthly_amount_collected monthly_outstanding)

lemma filter_assign_year:
  "filter (\<lambda>r. invoice_year.year r \<noteq> None) (assign_year invoices)
     = assign_year (filter (\<lambda>i. invoice.date i \<noteq> None) invoices)"
  by (induction invoices) (simp_all add: assign_year_def dt_year_def invoice.defs)

lemma yearly_total_billed:
  "col_sum yearly_row.total_billed (yearly_billing invoices)
     = col_sum total (filter (\<lambda>i. invoice.date i \<noteq> None) invoices)"
proof -
  let ?df = "assign_year invoices"
  have "col_sum yearly_row.total_billed (yearly_billing invoices)
          = col_sum yearly_row.total_billed (groupby_year_agg ?df)"
    unfolding yearly_billing_def Let_def by (rule col_sum_mset) simp
  also have "\<dots> = (\<Sum>k\<leftarrow>group_keys invoice_year.year ?df.
                        col_sum total (group_rows invoice_year.year k ?df))"
    by (simp add: groupby_year_agg_def Let_def col_sum_map_sum)
  also have "\<dots> = col_sum total (filter (\<lambda>r. invoice_year.year r \<noteq> None) ?df)"
    by (simp add: sum_groupby)
  also have "\<dots> = col_sum total (filter (\<lambda>i. invoice.date i \<noteq> None) invoices)"
    unfolding filter_assign_year by (simp add: assign_year_def col_sum_map invoice.defs)
  finally show ?thesis .
qed

text \<open>
  C1. Conservation of billing totals. The claim fails for \<open>yearly_billing\<close>, whatever the
  version of pandas: the year of an invoice whose date does not parse is missing,
  \<open>groupby\<close> drops the row, and its amounts are in no yearly row (\<open>yearly_total_billed\<close>).
  For \<open>monthly_billing\<close> the claim holds where \<open>astype(str)\<close> renders a missing period as a
  string (\<open>monthly_totals_rendered\<close>): such an invoice lands in the group \<open>NaT\<close>. Where the
  period stays missing, \<open>monthly_billing\<close> drops the invoice as well
  (\<open>monthly_totals_missing\<close>). For the single invoice below, of total 100, the yearly table
  is empty; the monthly table has one row of 100 under the first rendering and is empty
  under the second.
\<close>

theorem yearly_billing_drops_unparseable_date:
  "monthly_billing (Some ''NaT'')
     [\<lparr>invoice_number = Some ''INV-1'', contact = Some ''Acme'', status = Some ''PAID'',
       invoice.date = None, due_date = None, amount_due = 20, amount_paid = 80, total = 100\<rparr>]
     = [\<lparr>monthly_row.month = ''NaT'', total_billed = 100, amount_collected = 80, outstanding = 20\<rparr>]
   \<and> yearly_billing
     [\<lparr>invoice_number = Some ''INV-1'', contact = Some ''Acme'', status = Some ''PAID'',
       invoice.date = None, due_date = None, amount_due = 20, amount_paid = 80, total = 100\<rparr>]
     = []
   \<and> col_sum yearly_row.total_billed (yearly_billing
     [\<lparr>invoice_number = Some ''INV-1'', contact = Some ''Acme'', status = Some ''PAID'',
       invoice.date = None, due_date = None, amount_due = 20, amount_paid = 80, total = 100\<rparr>])
     \<noteq> col_sum total
     [\<lparr>invoice_number = Some ''INV-1'', contact = Some ''Acme'', status = Some ''PAID'',
       invoice.date = None, due_date = None, amount_due = 20, amount_paid = 80, total = 100\<rparr>]
   \<and> monthly_billing None
     [\<lparr>invoice_number = Some ''INV-1'', contact = Some ''Acme'', status = Some ''PAID'',
       invoice.date = None, due_date = None, amount_due = 20, amount_paid = 80, total = 100\<rparr>]
     = []"
  by (simp add: monthly_billing_def assign_month_def groupby_month_agg_def period_M_str_def
        yearly_billing_def assign_year_def groupby_year_agg_def group_keys_def group_rows_def
        map_filter_simps dt_year_def invoice.defs)

section \<open>The sentinel month\<close>

lemma digit_char_less_N: "d < 10 \<Longrightarrow> digit_char d < CHR ''N''"
  by (simp add: digit_char_def less_char_def)

lemma decimal_hd: "\<exists>c cs. decimal n = c # cs \<and> c < CHR ''N''"
proof (induction n rule: decimal.induct)
  case (1 n)
  show ?case
  proof (cases "n < 10")
    case True
    then have "decimal n = [digit_char n]" by (subst decimal.simps) simp
    with True show ?thesis by (simp add: digit_char_less_N)
  next
    case False
    with "1.IH" obtain c cs where "decimal (n div 10) = c # cs" and "c < CHR ''N''" by blast
    moreover have "decimal n = decimal (n div 10) @ [digit_char (n mod 10)]"
      using False by (subst decimal.simps) simp
    ultimately show ?thesis by simp
  qed
qed

lemma zfill_hd:
  assumes "s = c # cs" and "c < CHR ''N''"
  shows "\<exists>c' cs'. zfill w s = c' # cs' \<and> c' < CHR ''N''"
proof (cases "w - length s")
  case 0
  with assms show ?thesis by (simp add: zfill_def)
next
  case (Suc m)
  then have "zfill w s = CHR ''0'' # (replicate m (CHR ''0'') @ s)" by (simp add: zfill_def)
  moreover have "CHR ''0'' < CHR ''N''" by (simp add: less_char_def)
  ultimately show ?thesis by blast
qed

lemma month_str_less_NaT: "month_str t < ''NaT''"
proof -
  obtain c cs where "decimal (ts_year t) = c # cs" and "c < CHR ''N''"
    using decimal_hd by blast
  then obtain c' cs' where "zfill 4 (decimal (ts_year t)) = c' # cs'" and "c' < CHR ''N''"
    using zfill_hd by blast
  then show ?thesis by (simp add: month_str_def)
qed

lemma period_M_str_None [simp]: "period_M_str nat_str None = nat_str"
  by (simp add: period_M_str_def)

lemma period_M_str_Some [simp]: "period_M_str nat_str (Some t) = Some (month_str t)"
  by (simp add: period_M_str_def)

lemma period_M_str_NaT_iff: "period_M_str (Some ''NaT'') d = Some ''NaT'' \<longleftrightarrow> d = None"
proof (cases d)
  case None
  then show ?thesis by simp
next
  case (Some t)
  then show ?thesis using month_str_less_NaT [of t] by auto
qed

lemma period_M_str_le_NaT: "period_M_str (Some ''NaT'') d = Some k \<Longrightarrow> k \<le> ''NaT''"
  using month_str_less_NaT by (cases d) (auto simp: less_imp_le)

lemma month_groupby_month_agg:
  "map monthly_row.month (groupby_month_agg df) = group_keys invoice_month.month df"
  by (simp add: groupby_month_agg_def Let_def comp_def)

lemma monthly_billing_eq:
  "monthly_billing nat_str invoices = groupby_month_agg (assign_month nat_str invoices)"
  unfolding monthly_billing_def Let_def
  by (rule sort_key_id_if_sorted) (simp add: month_groupby_month_agg sorted_group_keys)

lemma map_filter_assign_month:
  "List.map_filter invoice_month.month (assign_month nat_str invoices)
     = List.map_filter (\<lambda>i. period_M_str nat_str (invoice.date i)) invoices"
  by (induction invoices)
     (simp_all add: map_filter_simps assign_month_def invoice.defs split: option.split)

lemma month_monthly_billing:
  "map monthly_row.month (monthly_billing nat_str invoices)
     = sort (remdups (List.map_filter (\<lambda>i. period_M_str nat_str (invoice.date i)) invoices))"
  by (simp add: monthly_billing_eq month_groupby_month_agg group_keys_def map_filter_assign_month)

lemma set_month_monthly_billing:
  "set (map monthly_row.month (monthly_billing nat_str invoices))
     = {k. \<exists>i\<in>set invoices. period_M_str nat_str (invoice.date i) = Some k}"
  unfolding month_monthly_billing by (auto simp: set_map_filter_Some image_iff) metis

lemma group_rows_NaT:
  "col_sum f (group_rows invoice_month.month ''NaT'' (assign_month (Some ''NaT'') invoices))
     = col_sum (\<lambda>i. f (invoice.extend i \<lparr>invoice_month.month = Some ''NaT''\<rparr>))
         (filter (\<lambda>i. invoice.date i = None) invoices)"
proof (induction invoices)
  case Nil
  show ?case by (simp add: group_rows_def assign_month_def)
next
  case (Cons i invoices)
  have "period_M_str (Some ''NaT'') (invoice.date i) = Some ''NaT'' \<longleftrightarrow> invoice.date i = None"
    by (rule period_M_str_NaT_iff)
  with Cons show ?case
    by (cases "invoice.date i")
       (simp_all add: group_rows_def assign_month_def invoice.defs)
qed

lemma sorted_le_last:
  fixes xs :: "'a::linorder list"
  shows "sorted xs \<Longrightarrow> x \<in> set xs \<Longrightarrow> x \<le> last xs"
  by (induction xs) auto

lemma sorted_last_max:
  fixes xs :: "'a::linorder list"
  assumes "sorted xs" and "m \<in> set xs" and "\<forall>x\<in>set xs. x \<le> m"
  shows "last xs = m"
proof -
  from assms(2) have "xs \<noteq> []" by auto
  then have "last xs \<in> set xs" by simp
  with assms(3) have "last xs \<le> m" by blast
  moreover have "m \<le> last xs" using assms(1,2) by (rule sorted_le_last)
  ultimately show ?thesis by simp
qed

lemma monthly_billing_NaT_row_iff:
  "''NaT'' \<in> set (map monthly_row.month (monthly_billing (Some ''NaT'') invoices))
     \<longleftrightarrow> (\<exists>i\<in>set invoices. invoice.date i = None)"
  unfolding set_month_monthly_billing by (simp add: period_M_str_NaT_iff)

text \<open>
  Where a missing period stays missing, the invoices whose date did not parse have no
  effect on the monthly table, and no row has the key \<open>NaT\<close>.
\<close>

lemma assign_month_missing_keys:
  "List.map_filter invoice_month.month (assign_month None invoices)
     = List.map_filter invoice_month.month
         (assign_month None (filter (\<lambda>i. invoice.date i \<noteq> None) invoices))"
  by (induction invoices) (auto simp: map_filter_simps assign_month_def invoice.defs)

lemma assign_month_missing_rows:
  "group_rows invoice_month.month k (assign_month None invoices)
     = group_rows invoice_month.month k
         (assign_month None (filter (\<lambda>i. invoice.date i \<noteq> None) invoices))"
  by (induction invoices) (auto simp: group_rows_def assign_month_def invoice.defs)

lemma monthly_billing_missing_dropped:
  "monthly_billing None invoices
     = monthly_billing None (filter (\<lambda>i. invoice.date i \<noteq> None) invoices)"
  unfolding monthly_billing_eq groupby_month_agg_def Let_def group_keys_def
    assign_month_missing_keys [of invoices]
  by (simp add: assign_month_missing_rows [of _ invoices])

lemma monthly_billing_missing_no_NaT:
  "''NaT'' \<notin> set (map monthly_row.month (monthly_billing None invoices))"
proof
  assume "''NaT'' \<in> set (map monthly_row.month (monthly_billing None invoices))"
  then obtain i where "i \<in> set invoices"
    and "period_M_str None (invoice.date i) = Some ''NaT''"
    unfolding set_month_monthly_billing mem_Collect_eq by blast
  then show False
  proof (cases "invoice.date i")
    case None
    with \<open>period_M_str None (invoice.date i) = Some ''NaT''\<close> show False by simp
  next
    case (Some t)
    with \<open>period_M_str None (invoice.date i) = Some ''NaT''\<close> have "month_str t = ''NaT''"
      by simp
    with month_str_less_NaT [of t] show False by simp
  qed
qed

text \<open>
  C10. As stated the claim fails: whether an invoice whose date does not parse gets the
  month key \<open>NaT\<close> depends on what \<open>astype(str)\<close> makes of a missing period, and the
  repository pins no version of pandas. Where the period stays missing (pandas 3),
  \<open>groupby\<close> drops the invoice and the table has no sentinel row: of the two invoices
  below only the dated one is left.
\<close>

theorem monthly_billing_missing_month_counterexample:
  "monthly_billing None
     [\<lparr>invoice_number = Some ''INV-1'', contact = Some ''Acme'', status = Some ''PAID'',
       invoice.date = Some (Timestamp 2024 1 15), due_date = None,
       amount_due = 20, amount_paid = 80, total = 100\<rparr>,
      \<lparr>invoice_number = Some ''INV-2'', contact = Some ''Globex'', status = Some ''PAID'',
       invoice.date = None, due_date = None,
       amount_due = 4, amount_paid = 3, total = 7\<rparr>]
     = [\<lparr>monthly_row.month = ''2024-01'', total_billed = 100, amount_collected = 80,
         outstanding = 20\<rparr>]"
  by code_simp

text \<open>
  C10, amended. Where \<open>astype(str)\<close> renders a missing period as the string \<open>NaT\<close>
  (pandas before 3), an invoice whose date does not parse gets the month key \<open>NaT\<close>, a
  string like the others, so it is grouped, not dropped, and nothing is raised. \<open>NaT\<close> is
  greater than every \<open>YYYY-MM\<close> key, which starts with a digit. So when some invoice has an
  unparseable date, the last row of \<open>monthly_billing\<close> is the row of \<open>NaT\<close>, it holds the
  sums over exactly the invoices with an unparseable date, and the month keys are
  ascending and distinct (no other row has that key). The table has a row of \<open>NaT\<close> only in
  that case (\<open>monthly_billing_NaT_row_iff\<close>).
\<close>

theorem monthly_billing_sentinel_last:
  assumes "nat_str = Some ''NaT''" and "\<exists>i\<in>set invoices. invoice.date i = None"
  shows "monthly_billing nat_str invoices \<noteq> []
       \<and> last (monthly_billing nat_str invoices)
           = \<lparr>monthly_row.month = ''NaT'',
              total_billed = col_sum total (filter (\<lambda>i. invoice.date i = None) invoices),
              amount_collected = col_sum amount_paid (filter (\<lambda>i. invoice.date i = None) invoices),
              outstanding = col_sum amount_due (filter (\<lambda>i. invoice.date i = None) invoices)\<rparr>
       \<and> sorted (map monthly_row.month (monthly_billing nat_str invoices))
       \<and> distinct (map monthly_row.month (monthly_billing nat_str invoices))"
proof -
  let ?key = "invoice_month.month"
  let ?df = "assign_month (Some ''NaT'') invoices"
  let ?ks = "group_keys ?key ?df"
  have months: "map monthly_row.month (monthly_billing (Some ''NaT'') invoices) = ?ks"
    by (simp add: monthly_billing_eq month_groupby_month_agg)
  have mem: "''NaT'' \<in> set ?ks"
    using assms(2) monthly_billing_NaT_row_iff [of invoices] unfolding months by blast
  have le: "\<forall>k\<in>set ?ks. k \<le> ''NaT''"
    using set_month_monthly_billing [of "Some ''NaT''" invoices] period_M_str_le_NaT
    unfolding months by blast
  have ne: "?ks \<noteq> []" using mem by auto
  have last: "last ?ks = ''NaT''"
    using sorted_group_keys mem le by (rule sorted_last_max)
  have eq: "monthly_billing (Some ''NaT'') invoices
              = map (\<lambda>k. \<lparr>monthly_row.month = k,
                            total_billed = col_sum total (group_rows ?key k ?df),
                            amount_collected = col_sum amount_paid (group_rows ?key k ?df),
                            outstanding = col_sum amount_due (group_rows ?key k ?df)\<rparr>) ?ks"
    by (simp add: monthly_billing_eq groupby_month_agg_def Let_def)
  have "monthly_billing (Some ''NaT'') invoices \<noteq> []" using ne eq by simp
  moreover have "last (monthly_billing (Some ''NaT'') invoices)
           = \<lparr>monthly_row.month = ''NaT'',
              total_billed = col_sum total (filter (\<lambda>i. invoice.date i = None) invoices),
              amount_collected = col_sum amount_paid (filter (\<lambda>i. invoice.date i = None) invoices),
              outstanding = col_sum amount_due (filter (\<lambda>i. invoice.date i = None) invoices)\<rparr>"
    unfolding eq by (simp add: last_map [OF ne] last group_rows_NaT invoice.defs)
  moreover have "sorted (map monthly_row.month (monthly_billing (Some ''NaT'') invoices))"
    unfolding months by (rule sorted_group_keys)
  moreover have "distinct (map monthly_row.month (monthly_billing (Some ''NaT'') invoices))"
    unfolding months by (rule distinct_group_keys)
  ultimately show ?thesis unfolding assms(1) by blast
qed

text \<open>An instance: one dated invoice and one whose date did not parse.\<close>

theorem monthly_billing_sentinel_last_witness:
  "last (monthly_billing (Some ''NaT'')
     [\<lparr>invoice_number = Some ''INV-1'', contact = Some ''Acme'', status = Some ''PAID'',
       invoice.date = Some (Timestamp 2024 1 15), due_date = None,
       amount_due = 20, amount_paid = 80, total = 100\<rparr>,
      \<lparr>invoice_number = Some ''INV-2'', contact = Some ''Globex'', status = Some ''PAID'',
       invoice.date = None, due_date = None,
       amount_due = 4, amount_paid = 3, total = 7\<rparr>])
     = \<lparr>monthly_row.month = ''NaT'', total_billed = 7, amount_collected = 3, outstanding = 4\<rparr>"
  using monthly_billing_sentinel_last [of "Some ''NaT''"
     "[\<lparr>invoice_number = Some ''INV-1'', contact = Some ''Acme'', status = Some ''PAID'',
       invoice.date = Some (Timestamp 2024 1 15), due_date = None,
       amount_due = 20, amount_paid = 80, total = 100\<rparr>,
      \<lparr>invoice_number = Some ''INV-2'', contact = Some ''Globex'', status = Some ''PAID'',
       invoice.date = None, due_date = None,
       amount_due = 4, amount_paid = 3, total = 7\<rparr>]"]
  by simp

section \<open>Order of the time table\<close>







section \<open>Profit margin of a deal\<close>

lemma margin_cases:
  "fmul (fillna0 (replace_na_nat (np_truediv (v - c) v))) 100
     = (if v \<noteq> 0 then Fin ((v - c) / v * 100)
        else if c = 0 then Fin 0
        else if 0 < c then NInf
        else PInf)"
  by (simp add: np_truediv_def)

lemma deal_profitability_rows:
  assumes "argsort_ok a" and "r \<in> set (deal_profitability a deals)"
  shows "deal.truncate r \<in> set deals
       \<and> deal_p.profit r = deal_value r - cost_to_deliver r
       \<and> profit_margin_pct r
           = (if deal_value r \<noteq> 0 then Fin ((deal_value r - cost_to_deliver r) / deal_value r * 100)
              else if cost_to_deliver r = 0 then Fin 0
              else if 0 < cost_to_deliver r then NInf
              else PInf)"
proof -
  from assms have "r \<in> set (assign_profit_margin_pct (assign_profit deals))"
    by (simp add: deal_profitability_def set_sort_values)
  then obtain d where d: "d \<in> set deals"
      and r: "r = deal_p.extend (deal.extend d \<lparr>deal_p.profit = deal_value d - cost_to_deliver d\<rparr>)
                   \<lparr>profit_margin_pct =
                      fmul (fillna0 (replace_na_nat
                        (np_truediv (deal_value d - cost_to_deliver d) (deal_value d)))) 100\<rparr>"
    by (auto simp: assign_profit_margin_pct_def assign_profit_def deal.defs deal_p.defs)
  have "deal.truncate r = d" unfolding r by (simp add: deal.defs deal_p.defs)
  with d have 1: "deal.truncate r \<in> set deals" by simp
  have v: "deal_value r = deal_value d" and c: "cost_to_deliver r = cost_to_deliver d"
    unfolding r by (simp_all add: deal.defs deal_p.defs)
  have 2: "deal_p.profit r = deal_value d - cost_to_deliver d"
    unfolding r by (simp add: deal.defs deal_p.defs)
  have "profit_margin_pct r
          = fmul (fillna0 (replace_na_nat
              (np_truediv (deal_value d - cost_to_deliver d) (deal_value d)))) 100"
    unfolding r by (simp add: deal.defs deal_p.defs)
  then have 3: "profit_margin_pct r
           = (if deal_value d \<noteq> 0 then Fin ((deal_value d - cost_to_deliver d) / deal_value d * 100)
              else if cost_to_deliver d = 0 then Fin 0
              else if 0 < cost_to_deliver d then NInf
              else PInf)"
    by (simp only: margin_cases)
  show ?thesis using 1 2 3 unfolding v c by blast
qed

text \<open>
  C2. A deal whose value is 0 and whose cost is positive: the profit is negative, the
  division by 0 gives \<open>-inf\<close>, which neither \<open>replace\<close> nor \<open>fillna\<close> touches, so the
  margin is \<open>-inf\<close> and not 0. (\<open>deal_profitability_rows\<close> gives the margin of every row,
  for every admissible argsort: the claimed quotient when the value is not 0, and 0 only
  when value and cost are both 0.)
\<close>

theorem deal_profitability_zero_value_margin_is_negative_infinity:
  "deal_profitability stable_argsort
     [\<lparr>deal_name = Some ''Deal-1'', deal.team = Some ''Growth'', close_date = None,
       deal_value = 0, cost_to_deliver = 1\<rparr>]
     = [\<lparr>deal_name = Some ''Deal-1'', deal.team = Some ''Growth'', close_date = None,
         deal_value = 0, cost_to_deliver = 1, deal_p.profit = - 1, profit_margin_pct = NInf\<rparr>]"
  by code_simp

section \<open>The scorecard: rows of the loop\<close>

lemma iterrows_Inr:
  assumes "\<And>x. x \<in> set xs \<Longrightarrow> f x = Inr (g x)"
  shows "iterrows f xs = Inr (map g xs)"
  using assms by (induction xs) (simp_all add: and_then_def)

lemma scorecard_row_of_eq:
  "scorecard_row_of tg tc rs row =
     Inr \<lparr>scorecard_row.team = merged_row.team row,
          scorecard_row.revenue = merged_row.revenue row,
          scorecard_row.profit = merged_row.profit row,
          scorecard_row.profitability_pct = merged_row.profitability_pct row,
          scorecard_row.hours = merged_row.hours row,
          collected_estimate = tc * (if rs = 0 then 0 else merged_row.revenue row / rs),
          revenue_vs_target_pct =
            (if revenue_target (targets_get tg (merged_row.team row)) = 0 then 0
             else merged_row.revenue row / revenue_target (targets_get tg (merged_row.team row)) * 100),
          collection_vs_target_pct =
            (if collection_target (targets_get tg (merged_row.team row)) = 0 then 0
             else tc * (if rs = 0 then 0 else merged_row.revenue row / rs)
                    / collection_target (targets_get tg (merged_row.team row)) * 100),
          utilization_vs_target_pct =
            (if utilization_target_hours (targets_get tg (merged_row.team row)) = 0 then 0
             else merged_row.hours row
                    / utilization_target_hours (targets_get tg (merged_row.team row)) * 100),
          profitability_vs_target_pct =
            (if profitability_target_pct (targets_get tg (merged_row.team row)) = 0 then Fin 0
             else fmul (fdiv (merged_row.profitability_pct row)
                          (profitability_target_pct (targets_get tg (merged_row.team row)))) 100)\<rparr>"
  by (simp add: scorecard_row_of_def Let_def and_then_def py_truediv_def py_truediv_f_def)

section \<open>The scorecard: the joined table\<close>

lemma group_keys_sorted_list:
  "group_keys key rows = sorted_list_of_set (set (List.map_filter key rows))"
  by (simp add: group_keys_def sorted_list_of_set_sort_remdups)

lemma group_keys_cong_set:
  assumes "key ` set rows = key' ` set rows'"
  shows "group_keys key rows = group_keys key' rows'"
  using assms by (simp add: group_keys_sorted_list set_map_filter_Some)

lemma col_sum_group_rows_mset:
  assumes "mset rows = mset rows'"
  shows "col_sum f (group_rows key k rows) = col_sum f (group_rows key k rows')"
  unfolding group_rows_def
  by (rule col_sum_mset) (simp add: assms mset_filter)

lemma find_keyed:
  assumes m: "mset xs = mset (map mk ks)" and key: "\<And>k. key (mk k) = k"
  shows "find (\<lambda>x. key x = k) xs = (if k \<in> set ks then Some (mk k) else None)"
proof -
  have s: "set xs = mk ` set ks" using mset_eq_setD [OF m] by simp
  show ?thesis
  proof (cases "k \<in> set ks")
    case False
    then have "\<not> (\<exists>x\<in>set xs. key x = k)" using s key by auto
    then show ?thesis using False by (simp add: find_None_iff)
  next
    case True
    then have "\<exists>x\<in>set xs. key x = k" using s key by auto
    then obtain y where y: "find (\<lambda>x. key x = k) xs = Some y"
      by (cases "find (\<lambda>x. key x = k) xs") (auto simp: find_None_iff)
    then have "y \<in> set xs" and "key y = k"
      by (auto simp: find_Some_iff)
    then have "y = mk k" using s key by auto
    with y True show ?thesis by simp
  qed
qed

text \<open>The deals with the two columns added, in the order of the input.\<close>

lemma mset_deal_profitability:
  assumes "argsort_ok a"
  shows "mset (deal_profitability a deals) = mset (assign_profit_margin_pct (assign_profit deals))"
  by (simp add: deal_profitability_def mset_sort_values [OF assms])

lemma team_assign [simp]:
  "map deal.team (assign_profit_margin_pct (assign_profit deals)) = map deal.team deals"
  by (simp add: assign_profit_margin_pct_def assign_profit_def deal.defs deal_p.defs)

lemma group_rows_assign:
  "col_sum f (group_rows deal.team k (assign_profit_margin_pct (assign_profit deals)))
     = col_sum (\<lambda>d. f (deal_p.extend (deal.extend d \<lparr>deal_p.profit = deal_value d - cost_to_deliver d\<rparr>)
                        \<lparr>profit_margin_pct =
                           fmul (fillna0 (replace_na_nat
                             (np_truediv (deal_value d - cost_to_deliver d) (deal_value d)))) 100\<rparr>))
         (filter (\<lambda>d. deal.team d = Some k) deals)"
  by (induction deals)
     (simp_all add: group_rows_def assign_profit_margin_pct_def assign_profit_def deal.defs deal_p.defs)

lemma groupby_team_agg_profit_eq:
  assumes "argsort_ok a"
  shows "groupby_team_agg_profit (deal_profitability a deals)
           = map (\<lambda>k. \<lparr>team_sums.team = k,
                         team_sums.revenue = team_revenue deals k,
                         team_sums.profit = team_profit_sum deals k\<rparr>)
               (group_keys deal.team deals)"
proof -
  let ?P = "assign_profit_margin_pct (assign_profit deals)"
  have m: "mset (deal_profitability a deals) = mset ?P"
    by (rule mset_deal_profitability [OF assms])
  have "set (map deal.team ?P) = set (map deal.team deals)" by (simp only: team_assign)
  then have "deal.team ` set ?P = deal.team ` set deals" by (simp only: set_map)
  moreover have "deal.team ` set (deal_profitability a deals) = deal.team ` set ?P"
    using mset_eq_setD [OF m] by simp
  ultimately have "deal.team ` set (deal_profitability a deals) = deal.team ` set deals" by simp
  then have keys: "group_keys deal.team (deal_profitability a deals) = group_keys deal.team deals"
    by (rule group_keys_cong_set)
  have rev: "col_sum deal_value (group_rows deal.team k (deal_profitability a deals))
               = team_revenue deals k" for k
    unfolding col_sum_group_rows_mset [OF m] group_rows_assign team_revenue_def
    by (simp add: deal.defs deal_p.defs)
  have prof: "col_sum deal_p.profit (group_rows deal.team k (deal_profitability a deals))
               = team_profit_sum deals k" for k
    unfolding col_sum_group_rows_mset [OF m] group_rows_assign team_profit_sum_def
    by (simp add: deal.defs deal_p.defs)
  show ?thesis
    unfolding groupby_team_agg_profit_def keys by (simp add: rev prof)
qed

lemma fillna0_fmul_100: "fillna0 (fmul (fillna0 x) 100) = fmul (fillna0 x) 100"
  by (cases x) simp_all

lemma filter_team_absent:
  assumes "k \<notin> set (group_keys key rows)"
  shows "filter (\<lambda>r. key r = Some k) rows = []"
  using assms by (auto simp: set_group_keys filter_empty_conv image_iff)

lemma set_group_keys_map_filter: "set (group_keys key rows) = set (List.map_filter key rows)"
  by (simp add: set_group_keys set_map_filter_Some)

lemma mset_time_recorded_per_team:
  assumes "argsort_ok a"
  shows "mset (time_recorded_per_team a tes) = mset (groupby_team_agg_hours tes)"
  by (simp add: time_recorded_per_team_def mset_sort_values [OF assms])

lemma merged_frame_eq:
  assumes "argsort_ok a"
  shows "merged_frame a deals tes
           = map (\<lambda>k. \<lparr>merged_row.team = k,
                         merged_row.revenue = team_revenue deals k,
                         merged_row.profit = team_profit_sum deals k,
                         merged_row.profitability_pct =
                           fmul (fillna0 (np_truediv (team_profit_sum deals k) (team_revenue deals k))) 100,
                         merged_row.hours = team_hours_sum tes k,
                         merged_row.billable_amount =
                           col_sum time_entry.billable_amount
                             (filter (\<lambda>e. time_entry.team e = Some k) tes)\<rparr>)
               (sorted_list_of_set (teams_of deals tes))"
proof -
  let ?ksL = "group_keys deal.team deals"
  let ?ksR = "group_keys time_entry.team tes"
  let ?mkL = "\<lambda>k. \<lparr>team_sums.team = k, team_sums.revenue = team_revenue deals k,
                   team_sums.profit = team_profit_sum deals k,
                   team_profit.profitability_pct =
                     fmul (fillna0 (np_truediv (team_profit_sum deals k) (team_revenue deals k))) 100\<rparr>"
  let ?mkR = "\<lambda>k. \<lparr>team_hours.team = k,
                   team_hours.hours = col_sum time_entry.hours (group_rows time_entry.team k tes),
                   team_hours.billable_amount =
                     col_sum time_entry.billable_amount (group_rows time_entry.team k tes)\<rparr>"
  let ?left = "assign_profitability_pct (groupby_team_agg_profit (deal_profitability a deals))"
  let ?right = "time_recorded_per_team a tes"
  have left: "?left = map ?mkL ?ksL"
    by (simp add: groupby_team_agg_profit_eq [OF assms] assign_profitability_pct_def team_sums.defs)
  have right: "mset ?right = mset (map ?mkR ?ksR)"
    using mset_time_recorded_per_team [OF assms, of tes] by (simp add: groupby_team_agg_hours_def)
  have findL: "find (\<lambda>x. team_sums.team x = k) ?left = (if k \<in> set ?ksL then Some (?mkL k) else None)" for k
    unfolding left
    using find_keyed [where xs = "map ?mkL ?ksL" and mk = ?mkL and ks = ?ksL
                        and key = team_sums.team and k = k]
    by simp
  have findR: "find (\<lambda>y. team_hours.team y = k) ?right = (if k \<in> set ?ksR then Some (?mkR k) else None)" for k
    using find_keyed [where xs = ?right and mk = ?mkR and ks = ?ksR
                        and key = team_hours.team and k = k, OF right]
    by simp
  have teamsL: "set (map team_sums.team ?left) = set ?ksL"
    unfolding left by (simp add: comp_def)
  have "set ?right = set (map ?mkR ?ksR)"
    using right by (rule mset_eq_setD)
  then have "team_hours.team ` set ?right = team_hours.team ` set (map ?mkR ?ksR)"
    by (simp only:)
  then have teamsR: "set (map team_hours.team ?right) = set ?ksR"
    by (simp add: image_image)
  have keys: "sort (remdups (map team_sums.team ?left @ map team_hours.team ?right))
                = sorted_list_of_set (teams_of deals tes)"
  proof -
    have "sort (remdups (map team_sums.team ?left @ map team_hours.team ?right))
            = sorted_list_of_set (set (map team_sums.team ?left @ map team_hours.team ?right))"
      by (simp only: sorted_list_of_set_sort_remdups)
    also have "set (map team_sums.team ?left @ map team_hours.team ?right) = set ?ksL \<union> set ?ksR"
      by (simp only: set_append teamsL teamsR)
    also have "\<dots> = teams_of deals tes"
      by (simp add: teams_of_def set_group_keys_map_filter)
    finally show ?thesis .
  qed
  have row: "(let l = find (\<lambda>x. team_sums.team x = k) ?left;
                  r = find (\<lambda>y. team_hours.team y = k) ?right
              in \<lparr>merged_row.team = k,
                  merged_row.revenue = (case l of None \<Rightarrow> 0 | Some x \<Rightarrow> team_sums.revenue x),
                  merged_row.profit = (case l of None \<Rightarrow> 0 | Some x \<Rightarrow> team_sums.profit x),
                  merged_row.profitability_pct =
                    (case l of None \<Rightarrow> Fin 0 | Some x \<Rightarrow> fillna0 (team_profit.profitability_pct x)),
                  merged_row.hours = (case r of None \<Rightarrow> 0 | Some y \<Rightarrow> team_hours.hours y),
                  merged_row.billable_amount =
                    (case r of None \<Rightarrow> 0 | Some y \<Rightarrow> team_hours.billable_amount y)\<rparr>)
           = \<lparr>merged_row.team = k,
              merged_row.revenue = team_revenue deals k,
              merged_row.profit = team_profit_sum deals k,
              merged_row.profitability_pct =
                fmul (fillna0 (np_truediv (team_profit_sum deals k) (team_revenue deals k))) 100,
              merged_row.hours = team_hours_sum tes k,
              merged_row.billable_amount =
                col_sum time_entry.billable_amount (filter (\<lambda>e. time_entry.team e = Some k) tes)\<rparr>" for k
  proof -
    have L0: "team_revenue deals k = 0 \<and> team_profit_sum deals k = 0" if "k \<notin> set ?ksL"
      using filter_team_absent [OF that] by (simp add: team_revenue_def team_profit_sum_def)
    have R0: "filter (\<lambda>e. time_entry.team e = Some k) tes = []" if "k \<notin> set ?ksR"
      using filter_team_absent [OF that] .
    show ?thesis
      unfolding Let_def findL findR
      by (simp add: fillna0_fmul_100 L0 R0 team_hours_sum_def group_rows_def np_truediv_def)
  qed
  show ?thesis
    unfolding merged_frame_def Let_def merge_outer_fillna0_def keys
    by (rule map_cong [OF refl]) (rule row [unfolded Let_def])
qed

lemma finite_teams_of [simp]: "finite (teams_of deals tes)"
  by (simp add: teams_of_def)

lemma merged_frame_teams:
  assumes "argsort_ok a"
  shows "map merged_row.team (merged_frame a deals tes) = sorted_list_of_set (teams_of deals tes)"
  by (simp add: merged_frame_eq [OF assms] comp_def)

lemma merged_frame_Nil_iff:
  assumes "argsort_ok a"
  shows "merged_frame a deals tes = [] \<longleftrightarrow> teams_of deals tes = {}"
  by (simp add: merged_frame_eq [OF assms])

lemma merged_frame_row:
  assumes "argsort_ok a" and "m \<in> set (merged_frame a deals tes)"
  shows "merged_row.team m \<in> teams_of deals tes
       \<and> merged_row.revenue m = team_revenue deals (merged_row.team m)
       \<and> merged_row.profit m = team_profit_sum deals (merged_row.team m)
       \<and> merged_row.profitability_pct m
           = fmul (fillna0 (np_truediv (team_profit_sum deals (merged_row.team m))
                              (team_revenue deals (merged_row.team m)))) 100
       \<and> merged_row.hours m = team_hours_sum tes (merged_row.team m)"
  using assms(2) unfolding merged_frame_eq [OF assms(1)] by auto

lemma merged_frame_revenue_sum:
  assumes "argsort_ok a"
  shows "col_sum merged_row.revenue (merged_frame a deals tes)
           = col_sum deal_value (filter (\<lambda>d. deal.team d \<noteq> None) deals)"
proof -
  let ?ks = "sorted_list_of_set (teams_of deals tes)"
  have "col_sum merged_row.revenue (merged_frame a deals tes)
          = (\<Sum>k\<leftarrow>?ks. col_sum deal_value (group_rows deal.team k deals))"
    by (simp add: merged_frame_eq [OF assms] col_sum_map_sum team_revenue_def group_rows_def)
  also have "\<dots> = col_sum deal_value (filter (\<lambda>d. \<exists>k\<in>set ?ks. deal.team d = Some k) deals)"
    by (rule sum_over_groups) simp
  also have "filter (\<lambda>d. \<exists>k\<in>set ?ks. deal.team d = Some k) deals
               = filter (\<lambda>d. deal.team d \<noteq> None) deals"
  proof (rule filter_cong [OF refl])
    fix d assume d: "d \<in> set deals"
    have ks: "set ?ks = teams_of deals tes" by simp
    show "(\<exists>k\<in>set ?ks. deal.team d = Some k) = (deal.team d \<noteq> None)"
    proof (cases "deal.team d")
      case None
      then show ?thesis by simp
    next
      case (Some k)
      with d have "Some k \<in> deal.team ` set deals" by (simp add: rev_image_eqI)
      then have "k \<in> teams_of deals tes" by (simp add: teams_of_def set_map_filter_Some)
      with Some show ?thesis unfolding ks by simp
    qed
  qed
  finally show ?thesis .
qed

lemma team_scorecard_eq:
  "team_scorecard a deals tes invoices tg
     = (if merged_frame a deals tes = [] then Inl (KeyError ''revenue'')
        else Inr (sort_values a scorecard_row.revenue False
               (map (\<lambda>m. projr (scorecard_row_of tg (col_sum amount_paid invoices)
                                    (col_sum merged_row.revenue (merged_frame a deals tes)) m))
                  (merged_frame a deals tes))))"
proof -
  let ?f = "scorecard_row_of tg (col_sum amount_paid invoices)
              (col_sum merged_row.revenue (merged_frame a deals tes))"
  have "iterrows ?f (merged_frame a deals tes) = Inr (map (\<lambda>m. projr (?f m)) (merged_frame a deals tes))"
    by (rule iterrows_Inr) (simp add: scorecard_row_of_eq)
  then show ?thesis
    by (simp add: team_scorecard_def Let_def and_then_def scorecard_frame_sorted_def)
qed

lemma team_scorecard_mset:
  assumes "argsort_ok a" and "team_scorecard a deals tes invoices tg = Inr rows"
  shows "mset rows
           = mset (map (\<lambda>m. projr (scorecard_row_of tg (col_sum amount_paid invoices)
                                    (col_sum merged_row.revenue (merged_frame a deals tes)) m))
                    (merged_frame a deals tes))"
  using assms(2) unfolding team_scorecard_eq
  by (auto simp: mset_sort_values [OF assms(1)] split: if_splits)

lemma team_scorecard_row:
  assumes "argsort_ok a" and "team_scorecard a deals tes invoices tg = Inr rows" and "r \<in> set rows"
  obtains m where "m \<in> set (merged_frame a deals tes)"
    and "scorecard_row_of tg (col_sum amount_paid invoices)
           (col_sum deal_value (filter (\<lambda>d. deal.team d \<noteq> None) deals)) m = Inr r"
proof -
  have "set rows = set (map (\<lambda>m. projr (scorecard_row_of tg (col_sum amount_paid invoices)
                                    (col_sum merged_row.revenue (merged_frame a deals tes)) m))
                    (merged_frame a deals tes))"
    using team_scorecard_mset [OF assms(1,2)] by (rule mset_eq_setD)
  with assms(3) obtain m where m: "m \<in> set (merged_frame a deals tes)"
    and r: "r = projr (scorecard_row_of tg (col_sum amount_paid invoices)
                   (col_sum merged_row.revenue (merged_frame a deals tes)) m)"
    by auto
  have "scorecard_row_of tg (col_sum amount_paid invoices)
           (col_sum deal_value (filter (\<lambda>d. deal.team d \<noteq> None) deals)) m = Inr r"
    unfolding r merged_frame_revenue_sum [OF assms(1)] by (simp add: scorecard_row_of_eq)
  with m show ?thesis by (rule that)
qed

section \<open>The scorecard: teams and targets\<close>

lemma team_scorecard_teams:
  assumes "argsort_ok a"
  shows "(teams_of deals tes = {} \<longrightarrow>
            team_scorecard a deals tes invoices tg = Inl (KeyError ''revenue''))
       \<and> (teams_of deals tes \<noteq> {} \<longrightarrow>
            (\<exists>rows. team_scorecard a deals tes invoices tg = Inr rows
               \<and> set (map scorecard_row.team rows) = teams_of deals tes
               \<and> distinct (map scorecard_row.team rows)))"
proof (cases "teams_of deals tes = {}")
  case True
  then show ?thesis by (simp add: team_scorecard_eq merged_frame_Nil_iff [OF assms])
next
  case False
  let ?g = "\<lambda>m. projr (scorecard_row_of tg (col_sum amount_paid invoices)
                      (col_sum merged_row.revenue (merged_frame a deals tes)) m)"
  let ?rows = "sort_values a scorecard_row.revenue False (map ?g (merged_frame a deals tes))"
  have res: "team_scorecard a deals tes invoices tg = Inr ?rows"
    using False by (simp add: team_scorecard_eq merged_frame_Nil_iff [OF assms])
  have "mset ?rows = mset (map ?g (merged_frame a deals tes))"
    by (rule mset_sort_values [OF assms])
  then have "mset (map scorecard_row.team ?rows)
               = mset (map scorecard_row.team (map ?g (merged_frame a deals tes)))"
    by (simp only: mset_map)
  also have "map scorecard_row.team (map ?g (merged_frame a deals tes))
               = map merged_row.team (merged_frame a deals tes)"
    by (simp add: scorecard_row_of_eq)
  also have "\<dots> = sorted_list_of_set (teams_of deals tes)"
    by (rule merged_frame_teams [OF assms])
  finally have m: "mset (map scorecard_row.team ?rows) = mset (sorted_list_of_set (teams_of deals tes))" .
  have "set (map scorecard_row.team ?rows) = teams_of deals tes"
    using mset_eq_setD [OF m] by simp
  moreover have "distinct (map scorecard_row.team ?rows)"
    using mset_eq_imp_distinct_iff [OF m] by simp
  ultimately show ?thesis using False res by blast
qed

lemma team_scorecard_row_fields:
  assumes "argsort_ok a" and "team_scorecard a deals tes invoices tg = Inr rows" and "r \<in> set rows"
  shows "scorecard_row.team r \<in> teams_of deals tes
       \<and> scorecard_row.revenue r = team_revenue deals (scorecard_row.team r)
       \<and> scorecard_row.profit r = team_profit_sum deals (scorecard_row.team r)
       \<and> scorecard_row.hours r = team_hours_sum tes (scorecard_row.team r)
       \<and> scorecard_row.profitability_pct r
           = fmul (fillna0 (np_truediv (team_profit_sum deals (scorecard_row.team r))
                              (team_revenue deals (scorecard_row.team r)))) 100"
proof -
  from assms obtain m where m: "m \<in> set (merged_frame a deals tes)"
    and r: "scorecard_row_of tg (col_sum amount_paid invoices)
              (col_sum deal_value (filter (\<lambda>d. deal.team d \<noteq> None) deals)) m = Inr r"
    by (rule team_scorecard_row)
  from r have "scorecard_row.team r = merged_row.team m"
    and "scorecard_row.revenue r = merged_row.revenue m"
    and "scorecard_row.profit r = merged_row.profit m"
    and "scorecard_row.hours r = merged_row.hours m"
    and "scorecard_row.profitability_pct r = merged_row.profitability_pct m"
    unfolding scorecard_row_of_eq by auto
  with merged_frame_row [OF assms(1) m] show ?thesis by simp
qed

lemma team_scorecard_ratios:
  assumes "argsort_ok a" and "team_scorecard a deals tes invoices targets = Inr rows" and "r \<in> set rows"
  shows "revenue_vs_target_pct r
           = (if revenue_target (targets_get targets (scorecard_row.team r)) = 0 then 0
              else scorecard_row.revenue r
                     / revenue_target (targets_get targets (scorecard_row.team r)) * 100)
       \<and> collection_vs_target_pct r
           = (if collection_target (targets_get targets (scorecard_row.team r)) = 0 then 0
              else collected_estimate r
                     / collection_target (targets_get targets (scorecard_row.team r)) * 100)
       \<and> utilization_vs_target_pct r
           = (if utilization_target_hours (targets_get targets (scorecard_row.team r)) = 0 then 0
              else scorecard_row.hours r
                     / utilization_target_hours (targets_get targets (scorecard_row.team r)) * 100)
       \<and> profitability_vs_target_pct r
           = (if profitability_target_pct (targets_get targets (scorecard_row.team r)) = 0 then Fin 0
              else fmul (fdiv (scorecard_row.profitability_pct r)
                           (profitability_target_pct (targets_get targets (scorecard_row.team r)))) 100)
       \<and> collected_estimate r
           = col_sum amount_paid invoices
               * (if col_sum deal_value (filter (\<lambda>d. deal.team d \<noteq> None) deals) = 0 then 0
                  else scorecard_row.revenue r
                         / col_sum deal_value (filter (\<lambda>d. deal.team d \<noteq> None) deals))"
proof -
  from assms obtain m where
    r: "scorecard_row_of targets (col_sum amount_paid invoices)
              (col_sum deal_value (filter (\<lambda>d. deal.team d \<noteq> None) deals)) m = Inr r"
    by (rule team_scorecard_row)
  from r have r': "r = projr (scorecard_row_of targets (col_sum amount_paid invoices)
              (col_sum deal_value (filter (\<lambda>d. deal.team d \<noteq> None) deals)) m)"
    by simp
  show ?thesis
    unfolding r' scorecard_row_of_eq by simp
qed

lemma fdiv_fmul_cases:
  "fmul (fdiv x t) 100
     = (case x of
          Fin p \<Rightarrow> Fin (p / t * 100)
        | PInf \<Rightarrow> (if 0 < t then PInf else NInf)
        | NInf \<Rightarrow> (if 0 < t then NInf else PInf)
        | NaN \<Rightarrow> NaN)"
  by (cases x) simp_all

lemma profitability_cases:
  "fmul (fillna0 (np_truediv p v)) 100
     = (if v \<noteq> 0 then Fin (p / v * 100)
        else if p = 0 then Fin 0
        else if 0 < p then PInf
        else NInf)"
  by (simp add: np_truediv_def)

text \<open>
  C4. Zero-target neutrality. When some team occurs in the deals or in the time entries,
  \<open>team_scorecard\<close> returns a table with one row for each such team, and in every row:
  if the team is not a key of the dict of targets, all four ratios are 0; if the dict has
  the targets \<open>t\<close> for the team, each ratio is 0 when the field of \<open>t\<close> it is compared with
  is 0, whatever the actual value, and \<open>actual / target * 100\<close> otherwise. The actual values
  are the revenue, the collected estimate, the hours and the profitability of the row,
  which are the sums over the deals and the time entries of the team, the share of the
  amount paid that the revenue of the team has in the revenue of all teams, and the profit
  as a percentage of the revenue. The profitability of a team with profit or loss but no
  revenue is infinite, and then so is its ratio to a target that is not 0.
\<close>

theorem team_scorecard_vs_target:
  assumes "argsort_ok a" and "teams_of deals tes \<noteq> {}"
  shows "\<exists>rows. team_scorecard a deals tes invoices targets = Inr rows
     \<and> set (map scorecard_row.team rows) = teams_of deals tes
     \<and> (\<forall>r\<in>set rows.
          scorecard_row.revenue r = team_revenue deals (scorecard_row.team r)
        \<and> scorecard_row.hours r = team_hours_sum tes (scorecard_row.team r)
        \<and> collected_estimate r
            = col_sum amount_paid invoices
                * (if col_sum deal_value (filter (\<lambda>d. deal.team d \<noteq> None) deals) = 0 then 0
                   else scorecard_row.revenue r
                          / col_sum deal_value (filter (\<lambda>d. deal.team d \<noteq> None) deals))
        \<and> scorecard_row.profitability_pct r
            = (if team_revenue deals (scorecard_row.team r) \<noteq> 0
               then Fin (team_profit_sum deals (scorecard_row.team r)
                           / team_revenue deals (scorecard_row.team r) * 100)
               else if team_profit_sum deals (scorecard_row.team r) = 0 then Fin 0
               else if 0 < team_profit_sum deals (scorecard_row.team r) then PInf
               else NInf)
        \<and> (case targets (scorecard_row.team r) of
              None \<Rightarrow>
                revenue_vs_target_pct r = 0
              \<and> collection_vs_target_pct r = 0
              \<and> utilization_vs_target_pct r = 0
              \<and> profitability_vs_target_pct r = Fin 0
            | Some t \<Rightarrow>
                revenue_vs_target_pct r
                  = (if revenue_target t = 0 then 0
                     else scorecard_row.revenue r / revenue_target t * 100)
              \<and> collection_vs_target_pct r
                  = (if collection_target t = 0 then 0
                     else collected_estimate r / collection_target t * 100)
              \<and> utilization_vs_target_pct r
                  = (if utilization_target_hours t = 0 then 0
                     else scorecard_row.hours r / utilization_target_hours t * 100)
              \<and> profitability_vs_target_pct r
                  = (if profitability_target_pct t = 0 then Fin 0
                     else (case scorecard_row.profitability_pct r of
                             Fin p \<Rightarrow> Fin (p / profitability_target_pct t * 100)
                           | PInf \<Rightarrow> (if 0 < profitability_target_pct t then PInf else NInf)
                           | NInf \<Rightarrow> (if 0 < profitability_target_pct t then NInf else PInf)
                           | NaN \<Rightarrow> NaN))))"
proof -
  from team_scorecard_teams [OF assms(1), of deals tes invoices targets] assms(2)
  obtain rows where res: "team_scorecard a deals tes invoices targets = Inr rows"
    and teams: "set (map scorecard_row.team rows) = teams_of deals tes"
    by blast
  have row: "scorecard_row.revenue r = team_revenue deals (scorecard_row.team r)
        \<and> scorecard_row.hours r = team_hours_sum tes (scorecard_row.team r)
        \<and> collected_estimate r
            = col_sum amount_paid invoices
                * (if col_sum deal_value (filter (\<lambda>d. deal.team d \<noteq> None) deals) = 0 then 0
                   else scorecard_row.revenue r
                          / col_sum deal_value (filter (\<lambda>d. deal.team d \<noteq> None) deals))
        \<and> scorecard_row.profitability_pct r
            = (if team_revenue deals (scorecard_row.team r) \<noteq> 0
               then Fin (team_profit_sum deals (scorecard_row.team r)
                           / team_revenue deals (scorecard_row.team r) * 100)
               else if team_profit_sum deals (scorecard_row.team r) = 0 then Fin 0
               else if 0 < team_profit_sum deals (scorecard_row.team r) then PInf
               else NInf)
        \<and> (case targets (scorecard_row.team r) of
              None \<Rightarrow>
                revenue_vs_target_pct r = 0
              \<and> collection_vs_target_pct r = 0
              \<and> utilization_vs_target_pct r = 0
              \<and> profitability_vs_target_pct r = Fin 0
            | Some t \<Rightarrow>
                revenue_vs_target_pct r
                  = (if revenue_target t = 0 then 0
                     else scorecard_row.revenue r / revenue_target t * 100)
              \<and> collection_vs_target_pct r
                  = (if collection_target t = 0 then 0
                     else collected_estimate r / collection_target t * 100)
              \<and> utilization_vs_target_pct r
                  = (if utilization_target_hours t = 0 then 0
                     else scorecard_row.hours r / utilization_target_hours t * 100)
              \<and> profitability_vs_target_pct r
                  = (if profitability_target_pct t = 0 then Fin 0
                     else (case scorecard_row.profitability_pct r of
                             Fin p \<Rightarrow> Fin (p / profitability_target_pct t * 100)
                           | PInf \<Rightarrow> (if 0 < profitability_target_pct t then PInf else NInf)
                           | NInf \<Rightarrow> (if 0 < profitability_target_pct t then NInf else PInf)
                           | NaN \<Rightarrow> NaN)))"
    if r: "r \<in> set rows" for r
  proof -
    note R = team_scorecard_ratios [OF assms(1) res r]
    note F = team_scorecard_row_fields [OF assms(1) res r]
    have f1: "scorecard_row.revenue r = team_revenue deals (scorecard_row.team r)"
      and f2: "scorecard_row.hours r = team_hours_sum tes (scorecard_row.team r)"
      using F by blast+
    have f3: "scorecard_row.profitability_pct r
            = (if team_revenue deals (scorecard_row.team r) \<noteq> 0
               then Fin (team_profit_sum deals (scorecard_row.team r)
                           / team_revenue deals (scorecard_row.team r) * 100)
               else if team_profit_sum deals (scorecard_row.team r) = 0 then Fin 0
               else if 0 < team_profit_sum deals (scorecard_row.team r) then PInf
               else NInf)"
      using F unfolding profitability_cases by blast
    have f4: "collected_estimate r
            = col_sum amount_paid invoices
                * (if col_sum deal_value (filter (\<lambda>d. deal.team d \<noteq> None) deals) = 0 then 0
                   else scorecard_row.revenue r
                          / col_sum deal_value (filter (\<lambda>d. deal.team d \<noteq> None) deals))"
      using R by blast
    have f5: "(case targets (scorecard_row.team r) of
              None \<Rightarrow>
                revenue_vs_target_pct r = 0
              \<and> collection_vs_target_pct r = 0
              \<and> utilization_vs_target_pct r = 0
              \<and> profitability_vs_target_pct r = Fin 0
            | Some t \<Rightarrow>
                revenue_vs_target_pct r
                  = (if revenue_target t = 0 then 0
                     else scorecard_row.revenue r / revenue_target t * 100)
              \<and> collection_vs_target_pct r
                  = (if collection_target t = 0 then 0
                     else collected_estimate r / collection_target t * 100)
              \<and> utilization_vs_target_pct r
                  = (if utilization_target_hours t = 0 then 0
                     else scorecard_row.hours r / utilization_target_hours t * 100)
              \<and> profitability_vs_target_pct r
                  = (if profitability_target_pct t = 0 then Fin 0
                     else (case scorecard_row.profitability_pct r of
                             Fin p \<Rightarrow> Fin (p / profitability_target_pct t * 100)
                           | PInf \<Rightarrow> (if 0 < profitability_target_pct t then PInf else NInf)
                           | NInf \<Rightarrow> (if 0 < profitability_target_pct t then NInf else PInf)
                           | NaN \<Rightarrow> NaN)))"
    proof (cases "targets (scorecard_row.team r)")
      case None
      then have "targets_get targets (scorecard_row.team r)
                   = \<lparr>revenue_target = 0, collection_target = 0,
                      utilization_target_hours = 0, profitability_target_pct = 0\<rparr>"
        by (simp add: targets_get_def)
      with R None show ?thesis by simp
    next
      case (Some t)
      then have "targets_get targets (scorecard_row.team r) = t"
        by (simp add: targets_get_def)
      with R Some show ?thesis by (simp add: fdiv_fmul_cases)
    qed
    from f1 f2 f3 f4 f5 show ?thesis by blast
  qed
  from res teams row show ?thesis by blast
qed

text \<open>The scorecard of two deals, one time entry, one invoice and the targets of team A.\<close>

lemma scorecard_example:
  "team_scorecard stable_argsort
       [\<lparr>deal_name = Some ''Deal-1'', deal.team = Some ''A'', close_date = None,
         deal_value = 1000, cost_to_deliver = 400\<rparr>,
        \<lparr>deal_name = Some ''Deal-2'', deal.team = Some ''B'', close_date = None,
         deal_value = 3000, cost_to_deliver = 1500\<rparr>]
       [\<lparr>time_entry.date = None, time_entry.team = Some ''A'', project = None, client = None,
         time_entry.hours = 10, billable = True, time_entry.billable_amount = 800\<rparr>]
       [\<lparr>invoice_number = Some ''INV-1'', contact = Some ''Acme'', status = Some ''PAID'',
         invoice.date = None, due_date = None, amount_due = 100, amount_paid = 500, total = 600\<rparr>]
       [''A'' \<mapsto> \<lparr>revenue_target = 0, collection_target = 100,
                 utilization_target_hours = 5, profitability_target_pct = 30\<rparr>]
     = Inr [\<lparr>scorecard_row.team = ''B'', revenue = 3000, profit = 1500,
              profitability_pct = Fin 50, hours = 0, collected_estimate = 375,
              revenue_vs_target_pct = 0, collection_vs_target_pct = 0,
              utilization_vs_target_pct = 0, profitability_vs_target_pct = Fin 0\<rparr>,
            \<lparr>scorecard_row.team = ''A'', revenue = 1000, profit = 600,
              profitability_pct = Fin 60, hours = 10, collected_estimate = 125,
              revenue_vs_target_pct = 0, collection_vs_target_pct = 125,
              utilization_vs_target_pct = 200, profitability_vs_target_pct = Fin 200\<rparr>]"
  by code_simp

text \<open>
  An instance with three teams. Team A has four targets that are not 0; team B has a
  revenue target and a utilization target of 0, with a revenue of 3000 and 6 hours; team C,
  which has time entries only, is not a key of the dict.
\<close>

lemma scorecard_targets_example:
  "team_scorecard stable_argsort
       [\<lparr>deal_name = Some ''Deal-1'', deal.team = Some ''A'', close_date = None,
         deal_value = 1000, cost_to_deliver = 400\<rparr>,
        \<lparr>deal_name = Some ''Deal-2'', deal.team = Some ''B'', close_date = None,
         deal_value = 3000, cost_to_deliver = 1500\<rparr>]
       [\<lparr>time_entry.date = None, time_entry.team = Some ''A'', project = None, client = None,
         time_entry.hours = 10, billable = True, time_entry.billable_amount = 800\<rparr>,
        \<lparr>time_entry.date = None, time_entry.team = Some ''B'', project = None, client = None,
         time_entry.hours = 6, billable = True, time_entry.billable_amount = 600\<rparr>,
        \<lparr>time_entry.date = None, time_entry.team = Some ''C'', project = None, client = None,
         time_entry.hours = 4, billable = False, time_entry.billable_amount = 0\<rparr>]
       [\<lparr>invoice_number = Some ''INV-1'', contact = Some ''Acme'', status = Some ''PAID'',
         invoice.date = None, due_date = None, amount_due = 100, amount_paid = 500, total = 600\<rparr>]
       [''A'' \<mapsto> \<lparr>revenue_target = 2000, collection_target = 100,
                 utilization_target_hours = 5, profitability_target_pct = 30\<rparr>,
        ''B'' \<mapsto> \<lparr>revenue_target = 0, collection_target = 300,
                 utilization_target_hours = 0, profitability_target_pct = 25\<rparr>]
     = Inr [\<lparr>scorecard_row.team = ''B'', revenue = 3000, profit = 1500,
              profitability_pct = Fin 50, hours = 6, collected_estimate = 375,
              revenue_vs_target_pct = 0, collection_vs_target_pct = 125,
              utilization_vs_target_pct = 0, profitability_vs_target_pct = Fin 200\<rparr>,
            \<lparr>scorecard_row.team = ''A'', revenue = 1000, profit = 600,
              profitability_pct = Fin 60, hours = 10, collected_estimate = 125,
              revenue_vs_target_pct = 50, collection_vs_target_pct = 125,
              utilization_vs_target_pct = 200, profitability_vs_target_pct = Fin 200\<rparr>,
            \<lparr>scorecard_row.team = ''C'', revenue = 0, profit = 0,
              profitability_pct = Fin 0, hours = 4, collected_estimate = 0,
              revenue_vs_target_pct = 0, collection_vs_target_pct = 0,
              utilization_vs_target_pct = 0, profitability_vs_target_pct = Fin 0\<rparr>]"
  by code_simp

theorem team_scorecard_vs_target_witness:
  "argsort_ok stable_argsort
   \<and> teams_of
       [\<lparr>deal_name = Some ''Deal-1'', deal.team = Some ''A'', close_date = None,
         deal_value = 1000, cost_to_deliver = 400\<rparr>,
        \<lparr>deal_name = Some ''Deal-2'', deal.team = Some ''B'', close_date = None,
         deal_value = 3000, cost_to_deliver = 1500\<rparr>]
       [\<lparr>time_entry.date = None, time_entry.team = Some ''A'', project = None, client = None,
         time_entry.hours = 10, billable = True, time_entry.billable_amount = 800\<rparr>,
        \<lparr>time_entry.date = None, time_entry.team = Some ''B'', project = None, client = None,
         time_entry.hours = 6, billable = True, time_entry.billable_amount = 600\<rparr>,
        \<lparr>time_entry.date = None, time_entry.team = Some ''C'', project = None, client = None,
         time_entry.hours = 4, billable = False, time_entry.billable_amount = 0\<rparr>]
       = {''A'', ''B'', ''C''}
   \<and> (\<exists>rows. team_scorecard stable_argsort
       [\<lparr>deal_name = Some ''Deal-1'', deal.team = Some ''A'', close_date = None,
         deal_value = 1000, cost_to_deliver = 400\<rparr>,
        \<lparr>deal_name = Some ''Deal-2'', deal.team = Some ''B'', close_date = None,
         deal_value = 3000, cost_to_deliver = 1500\<rparr>]
       [\<lparr>time_entry.date = None, time_entry.team = Some ''A'', project = None, client = None,
         time_entry.hours = 10, billable = True, time_entry.billable_amount = 800\<rparr>,
        \<lparr>time_entry.date = None, time_entry.team = Some ''B'', project = None, client = None,
         time_entry.hours = 6, billable = True, time_entry.billable_amount = 600\<rparr>,
        \<lparr>time_entry.date = None, time_entry.team = Some ''C'', project = None, client = None,
         time_entry.hours = 4, billable = False, time_entry.billable_amount = 0\<rparr>]
       [\<lparr>invoice_number = Some ''INV-1'', contact = Some ''Acme'', status = Some ''PAID'',
         invoice.date = None, due_date = None, amount_due = 100, amount_paid = 500, total = 600\<rparr>]
       [''A'' \<mapsto> \<lparr>revenue_target = 2000, collection_target = 100,
                 utilization_target_hours = 5, profitability_target_pct = 30\<rparr>,
        ''B'' \<mapsto> \<lparr>revenue_target = 0, collection_target = 300,
                 utilization_target_hours = 0, profitability_target_pct = 25\<rparr>] = Inr rows
      \<and> map (\<lambda>r. (scorecard_row.team r, revenue_vs_target_pct r, collection_vs_target_pct r,
                  utilization_vs_target_pct r, profitability_vs_target_pct r)) rows
          = [(''B'', 0, 375 / 300 * 100, 0, Fin (50 / 25 * 100)),
             (''A'', 1000 / 2000 * 100, 125 / 100 * 100, 10 / 5 * 100, Fin (60 / 30 * 100)),
             (''C'', 0, 0, 0, Fin 0)])"
proof -
  let ?deals = "[\<lparr>deal_name = Some ''Deal-1'', deal.team = Some ''A'', close_date = None,
         deal_value = 1000, cost_to_deliver = 400\<rparr>,
        \<lparr>deal_name = Some ''Deal-2'', deal.team = Some ''B'', close_date = None,
         deal_value = 3000, cost_to_deliver = 1500\<rparr>]"
  let ?tes = "[\<lparr>time_entry.date = None, time_entry.team = Some ''A'', project = None, client = None,
         time_entry.hours = 10, billable = True, time_entry.billable_amount = 800\<rparr>,
        \<lparr>time_entry.date = None, time_entry.team = Some ''B'', project = None, client = None,
         time_entry.hours = 6, billable = True, time_entry.billable_amount = 600\<rparr>,
        \<lparr>time_entry.date = None, time_entry.team = Some ''C'', project = None, client = None,
         time_entry.hours = 4, billable = False, time_entry.billable_amount = 0\<rparr>]"
  let ?invoices = "[\<lparr>invoice_number = Some ''INV-1'', contact = Some ''Acme'', status = Some ''PAID'',
         invoice.date = None, due_date = None, amount_due = 100, amount_paid = 500, total = 600\<rparr>]"
  let ?targets = "[''A'' \<mapsto> \<lparr>revenue_target = 2000, collection_target = 100,
                 utilization_target_hours = 5, profitability_target_pct = 30\<rparr>,
        ''B'' \<mapsto> \<lparr>revenue_target = 0, collection_target = 300,
                 utilization_target_hours = 0, profitability_target_pct = 25\<rparr>]"
  have ok: "argsort_ok stable_argsort" by (rule argsort_ok_stable)
  have teams: "teams_of ?deals ?tes = {''A'', ''B'', ''C''}"
    by (auto simp: teams_of_def map_filter_simps)
  then have ne: "teams_of ?deals ?tes \<noteq> {}" by simp
  note T = team_scorecard_vs_target [OF ok ne, of ?invoices ?targets]
  show ?thesis using T ok teams unfolding scorecard_targets_example by simp
qed

section \<open>The scorecard: collected estimate\<close>

lemma sum_list_scaled:
  fixes s c :: rat
  shows "(\<Sum>x\<leftarrow>xs. c * (f x / s)) = c * (col_sum f xs / s)"
  by (induction xs) (simp_all add: distrib_left add_divide_distrib)

lemma sum_list_shares:
  fixes s c :: rat
  assumes "s \<noteq> 0" and "col_sum f xs = s"
  shows "(\<Sum>x\<leftarrow>xs. c * (f x / s)) = c"
proof -
  have "(\<Sum>x\<leftarrow>xs. c * (f x / s)) = c * (col_sum f xs / s)" by (rule sum_list_scaled)
  also have "\<dots> = c" using assms by simp
  finally show ?thesis .
qed

text \<open>
  C3. Collected-estimate conservation. The total revenue of the joined teams is the sum of
  \<open>deal_value\<close> over the deals that have a team. When it is not 0 (in particular when it
  is positive), \<open>team_scorecard\<close> returns a table whose revenues sum to it and whose
  collected estimates sum to the sum of \<open>amount_paid\<close> over all invoices (exactly: the
  numbers are rationals here). When it is 0, the collected estimate of every row is 0.
  A \<open>ZeroDivisionError\<close> is never raised.
\<close>

theorem team_scorecard_collected_estimate:
  assumes "argsort_ok a"
  shows "(col_sum deal_value (filter (\<lambda>d. deal.team d \<noteq> None) deals) \<noteq> 0 \<longrightarrow>
            (\<exists>rows. team_scorecard a deals tes invoices targets = Inr rows
               \<and> col_sum scorecard_row.revenue rows
                   = col_sum deal_value (filter (\<lambda>d. deal.team d \<noteq> None) deals)
               \<and> col_sum collected_estimate rows = col_sum amount_paid invoices))
       \<and> (col_sum deal_value (filter (\<lambda>d. deal.team d \<noteq> None) deals) = 0 \<longrightarrow>
            (\<forall>rows. team_scorecard a deals tes invoices targets = Inr rows \<longrightarrow>
               (\<forall>r\<in>set rows. collected_estimate r = 0)))
       \<and> team_scorecard a deals tes invoices targets \<noteq> Inl ZeroDivisionError"
proof -
  let ?S = "col_sum deal_value (filter (\<lambda>d. deal.team d \<noteq> None) deals)"
  let ?tc = "col_sum amount_paid invoices"
  let ?M = "merged_frame a deals tes"
  let ?g = "\<lambda>m. projr (scorecard_row_of targets ?tc (col_sum merged_row.revenue ?M) m)"
  have S: "col_sum merged_row.revenue ?M = ?S" by (rule merged_frame_revenue_sum [OF assms])
  have one: "\<exists>rows. team_scorecard a deals tes invoices targets = Inr rows
               \<and> col_sum scorecard_row.revenue rows = ?S
               \<and> col_sum collected_estimate rows = ?tc" if nz: "?S \<noteq> 0"
  proof -
    have ne: "?M \<noteq> []" using nz S by auto
    let ?rows = "sort_values a scorecard_row.revenue False (map ?g ?M)"
    have res: "team_scorecard a deals tes invoices targets = Inr ?rows"
      using ne by (simp add: team_scorecard_eq)
    have m: "mset ?rows = mset (map ?g ?M)" by (rule mset_sort_values [OF assms])
    have "col_sum scorecard_row.revenue ?rows = col_sum scorecard_row.revenue (map ?g ?M)"
      using m by (rule col_sum_mset)
    also have "\<dots> = col_sum merged_row.revenue ?M"
      by (simp add: col_sum_map scorecard_row_of_eq)
    finally have rev: "col_sum scorecard_row.revenue ?rows = ?S" using S by simp
    have "col_sum collected_estimate ?rows = col_sum collected_estimate (map ?g ?M)"
      using m by (rule col_sum_mset)
    also have "\<dots> = (\<Sum>m\<leftarrow>?M. ?tc * (merged_row.revenue m / ?S))"
      unfolding col_sum_map_sum S using nz by (simp add: scorecard_row_of_eq)
    also have "\<dots> = ?tc"
      using nz S by (rule sum_list_shares)
    finally have "col_sum collected_estimate ?rows = ?tc" .
    with res rev show ?thesis by blast
  qed
  have two: "collected_estimate r = 0"
    if z: "?S = 0" and res: "team_scorecard a deals tes invoices targets = Inr rows"
      and r: "r \<in> set rows" for rows r
  proof -
    from assms res r obtain m where
      "scorecard_row_of targets ?tc ?S m = Inr r" by (rule team_scorecard_row)
    then show ?thesis unfolding scorecard_row_of_eq z by auto
  qed
  have three: "team_scorecard a deals tes invoices targets \<noteq> Inl ZeroDivisionError"
    by (simp add: team_scorecard_eq)
  from one two three show ?thesis by blast
qed

text \<open>An instance with two teams, revenues 1000 and 3000, and 500 collected.\<close>

theorem team_scorecard_collected_estimate_witness:
  "(\<exists>rows. team_scorecard stable_argsort
       [\<lparr>deal_name = Some ''Deal-1'', deal.team = Some ''A'', close_date = None,
         deal_value = 1000, cost_to_deliver = 400\<rparr>,
        \<lparr>deal_name = Some ''Deal-2'', deal.team = Some ''B'', close_date = None,
         deal_value = 3000, cost_to_deliver = 1500\<rparr>]
       [\<lparr>time_entry.date = None, time_entry.team = Some ''A'', project = None, client = None,
         time_entry.hours = 10, billable = True, time_entry.billable_amount = 800\<rparr>]
       [\<lparr>invoice_number = Some ''INV-1'', contact = Some ''Acme'', status = Some ''PAID'',
         invoice.date = None, due_date = None, amount_due = 100, amount_paid = 500, total = 600\<rparr>]
       [''A'' \<mapsto> \<lparr>revenue_target = 0, collection_target = 100,
                 utilization_target_hours = 5, profitability_target_pct = 30\<rparr>]
     = Inr rows
     \<and> col_sum scorecard_row.revenue rows = 4000
     \<and> col_sum collected_estimate rows = 500)"
proof -
  have ok: "argsort_ok stable_argsort" by (rule argsort_ok_stable)
  show ?thesis
    using team_scorecard_collected_estimate [OF ok, of
       "[\<lparr>deal_name = Some ''Deal-1'', deal.team = Some ''A'', close_date = None,
         deal_value = 1000, cost_to_deliver = 400\<rparr>,
        \<lparr>deal_name = Some ''Deal-2'', deal.team = Some ''B'', close_date = None,
         deal_value = 3000, cost_to_deliver = 1500\<rparr>]"
       "[\<lparr>time_entry.date = None, time_entry.team = Some ''A'', project = None, client = None,
         time_entry.hours = 10, billable = True, time_entry.billable_amount = 800\<rparr>]"
       "[\<lparr>invoice_number = Some ''INV-1'', contact = Some ''Acme'', status = Some ''PAID'',
         invoice.date = None, due_date = None, amount_due = 100, amount_paid = 500, total = 600\<rparr>]"
       "[''A'' \<mapsto> \<lparr>revenue_target = 0, collection_target = 100,
                 utilization_target_hours = 5, profitability_target_pct = 30\<rparr>]"]
    by simp
qed

section \<open>The scorecard: edge cases\<close>

text \<open>
  C5. Team union completeness. Whenever a team occurs in the deals or in the time entries,
  the scorecard has exactly one row for each such team and no other
  (\<open>team_scorecard_teams\<close>). When none occurs, in particular for empty tables, the list of
  rows is empty, the frame built from it has no column \<open>revenue\<close>, and the function raises
  \<open>KeyError\<close> instead of returning the empty scorecard.
\<close>

theorem team_scorecard_without_teams_raises:
  "team_scorecard stable_argsort [] [] [] Map.empty = Inl (KeyError ''revenue'')
   \<and> team_scorecard stable_argsort
         [\<lparr>deal_name = Some ''Deal-1'', deal.team = None, close_date = None,
           deal_value = 1000, cost_to_deliver = 400\<rparr>]
         []
         [\<lparr>invoice_number = Some ''INV-1'', contact = Some ''Acme'', status = Some ''PAID'',
           invoice.date = None, due_date = None, amount_due = 100, amount_paid = 500, total = 600\<rparr>]
         Map.empty
       = Inl (KeyError ''revenue'')"
  by code_simp

text \<open>
  C6. Profitability of a team without revenue. One deal of value 0 and cost 1: the revenue
  of the team is 0, its profit is -1, the quotient is \<open>-inf\<close>, which \<open>fillna(0)\<close> leaves,
  and the profitability of the row is \<open>-inf\<close>, not 0. (\<open>team_scorecard_profitability_pct\<close>
  gives the profitability of every row: the claimed quotient when the revenue is not 0, and
  0 only when revenue and profit are both 0.)
\<close>

theorem team_scorecard_zero_revenue_profitability_is_negative_infinity:
  "team_scorecard stable_argsort
     [\<lparr>deal_name = Some ''Deal-1'', deal.team = Some ''A'', close_date = None,
       deal_value = 0, cost_to_deliver = 1\<rparr>]
     [] [] Map.empty
     = Inr [\<lparr>scorecard_row.team = ''A'', revenue = 0, profit = - 1,
              profitability_pct = NInf, hours = 0, collected_estimate = 0,
              revenue_vs_target_pct = 0, collection_vs_target_pct = 0,
              utilization_vs_target_pct = 0, profitability_vs_target_pct = Fin 0\<rparr>]"
  by code_simp

lemma team_scorecard_profitability_pct:
  assumes "argsort_ok a" and "team_scorecard a deals tes invoices tg = Inr rows" and "r \<in> set rows"
  shows "scorecard_row.profitability_pct r
           = (if scorecard_row.revenue r \<noteq> 0
              then Fin (scorecard_row.profit r / scorecard_row.revenue r * 100)
              else if scorecard_row.profit r = 0 then Fin 0
              else if 0 < scorecard_row.profit r then PInf
              else NInf)"
  using team_scorecard_row_fields [OF assms] by (simp add: np_truediv_def)

lemma parse_unsigned_examples:
  "parse_unsigned ''100'' = Some 100" "parse_unsigned ''40'' = Some 40"
  "parse_unsigned ''50'' = Some 50" "parse_unsigned ''10'' = Some 10"
  by code_simp+

lemma load_monday_deals_team_null:
  "deals_of_frame (load_monday_deals parse_unsigned (\<lambda>s. None)
     [\<lparr>item_name = ''D1'', column_values =
         [(''team'', Some ''Growth''), (''deal_value'', Some ''100''), (''cost_to_deliver'', Some ''40'')]\<rparr>,
      \<lparr>item_name = ''D2'', column_values =
         [(''team'', None), (''deal_value'', Some ''50''), (''cost_to_deliver'', Some ''10'')]\<rparr>])
   = Inr [\<lparr>deal_name = Some ''D1'', deal.team = Some ''Growth'', close_date = None,
            deal_value = 100, cost_to_deliver = 40\<rparr>,
          \<lparr>deal_name = Some ''D2'', deal.team = None, close_date = None,
            deal_value = 50, cost_to_deliver = 10\<rparr>]"
  by (simp add: load_monday_deals_def mapped_def DataFrame_def apply_column_def assign_scalar_def
        deals_of_frame_def deal_of_row_def to_numeric_coerce_def fillna0_cell_def and_then_def
        parse_unsigned_examples Let_def)

lemma load_monday_deals_no_team_column:
  "deals_of_frame (load_monday_deals parse_unsigned (\<lambda>s. None)
     [\<lparr>item_name = ''D1'', column_values =
         [(''deal_value'', Some ''100''), (''cost_to_deliver'', Some ''40'')]\<rparr>,
      \<lparr>item_name = ''D2'', column_values =
         [(''deal_value'', Some ''50''), (''cost_to_deliver'', Some ''10'')]\<rparr>])
   = Inr [\<lparr>deal_name = Some ''D1'', deal.team = Some ''Unknown'', close_date = None,
            deal_value = 100, cost_to_deliver = 40\<rparr>,
          \<lparr>deal_name = Some ''D2'', deal.team = Some ''Unknown'', close_date = None,
            deal_value = 50, cost_to_deliver = 10\<rparr>]"
  by (simp add: load_monday_deals_def mapped_def DataFrame_def apply_column_def assign_scalar_def
        deals_of_frame_def deal_of_row_def to_numeric_coerce_def fillna0_cell_def and_then_def
        parse_unsigned_examples Let_def)

lemma scorecard_team_null:
  "team_scorecard stable_argsort
     [\<lparr>deal_name = Some ''D1'', deal.team = Some ''Growth'', close_date = None,
        deal_value = 100, cost_to_deliver = 40\<rparr>,
      \<lparr>deal_name = Some ''D2'', deal.team = None, close_date = None,
        deal_value = 50, cost_to_deliver = 10\<rparr>] [] [] Map.empty
   = Inr [\<lparr>scorecard_row.team = ''Growth'', revenue = 100, profit = 60,
            profitability_pct = Fin 60, hours = 0, collected_estimate = 0,
            revenue_vs_target_pct = 0, collection_vs_target_pct = 0,
            utilization_vs_target_pct = 0, profitability_vs_target_pct = Fin 0\<rparr>]"
  by code_simp

lemma scorecard_no_team_column:
  "team_scorecard stable_argsort
     [\<lparr>deal_name = Some ''D1'', deal.team = Some ''Unknown'', close_date = None,
        deal_value = 100, cost_to_deliver = 40\<rparr>,
      \<lparr>deal_name = Some ''D2'', deal.team = Some ''Unknown'', close_date = None,
        deal_value = 50, cost_to_deliver = 10\<rparr>] [] [] Map.empty
   = Inr [\<lparr>scorecard_row.team = ''Unknown'', revenue = 150, profit = 100,
            profitability_pct = Fin (200 / 3), hours = 0, collected_estimate = 0,
            revenue_vs_target_pct = 0, collection_vs_target_pct = 0,
            utilization_vs_target_pct = 0, profitability_vs_target_pct = Fin 0\<rparr>]"
  by code_simp

text \<open>
  C7. Missing team of a deal. The loader writes \<open>Unknown\<close> only when no item at all has a
  \<open>team\<close> column (second equation: both deals are in the row \<open>Unknown\<close>). When the column
  exists and the team of one item is null, that deal keeps a missing team, \<open>groupby\<close> drops
  it, and its value and profit are in no row of the scorecard (first equation: only the
  deal of 100 is there, the deal of 50 is lost).
\<close>

theorem deal_with_null_team_is_dropped_from_scorecard:
  "and_then
     (deals_of_frame (load_monday_deals parse_unsigned (\<lambda>s. None)
        [\<lparr>item_name = ''D1'', column_values =
            [(''team'', Some ''Growth''), (''deal_value'', Some ''100''), (''cost_to_deliver'', Some ''40'')]\<rparr>,
         \<lparr>item_name = ''D2'', column_values =
            [(''team'', None), (''deal_value'', Some ''50''), (''cost_to_deliver'', Some ''10'')]\<rparr>]))
     (\<lambda>deals. team_scorecard stable_argsort deals [] [] Map.empty)
   = Inr [\<lparr>scorecard_row.team = ''Growth'', revenue = 100, profit = 60,
            profitability_pct = Fin 60, hours = 0, collected_estimate = 0,
            revenue_vs_target_pct = 0, collection_vs_target_pct = 0,
            utilization_vs_target_pct = 0, profitability_vs_target_pct = Fin 0\<rparr>]
   \<and> and_then
     (deals_of_frame (load_monday_deals parse_unsigned (\<lambda>s. None)
        [\<lparr>item_name = ''D1'', column_values =
            [(''deal_value'', Some ''100''), (''cost_to_deliver'', Some ''40'')]\<rparr>,
         \<lparr>item_name = ''D2'', column_values =
            [(''deal_value'', Some ''50''), (''cost_to_deliver'', Some ''10'')]\<rparr>]))
     (\<lambda>deals. team_scorecard stable_argsort deals [] [] Map.empty)
   = Inr [\<lparr>scorecard_row.team = ''Unknown'', revenue = 150, profit = 100,
            profitability_pct = Fin (200 / 3), hours = 0, collected_estimate = 0,
            revenue_vs_target_pct = 0, collection_vs_target_pct = 0,
            utilization_vs_target_pct = 0, profitability_vs_target_pct = Fin 0\<rparr>]"
  unfolding load_monday_deals_team_null load_monday_deals_no_team_column
  by (simp add: and_then_def scorecard_team_null scorecard_no_team_column)

section \<open>The store: what the functions write\<close>

lemma lookup_append: "r < length h \<Longrightarrow> lookup (h @ xs) r = Some (h ! r)"
  by (simp add: lookup_def nth_append)

lemma lookup_valid: "r < length h \<Longrightarrow> lookup h r = Some (h ! r)"
  by (simp add: lookup_def)

lemma lookup_prefix:
  assumes "take (length h) h' = h" and "r < length h"
  shows "lookup h' r = lookup h r"
proof -
  have "length (take (length h) h') = length h" using assms(1) by simp
  then have "length h \<le> length h'" by simp
  moreover have "take (length h) h' ! r = h' ! r" using assms(2) by simp
  then have "h' ! r = h ! r" using assms(1) by simp
  ultimately show ?thesis using assms(2) by (simp add: lookup_def)
qed

lemma monthly_billing_st_ok:
  assumes "lookup h i = Some (Invoices rows)"
  shows "monthly_billing_st nat_str h i
           = (h @ [InvoicesMonth (assign_month nat_str rows),
                   Monthly (groupby_month_agg (assign_month nat_str rows)),
                   Monthly (monthly_billing nat_str rows)],
              Inr (length h + 2))"
  using assms by (simp add: monthly_billing_st_def monthly_billing_def new_def setitem_def Let_def)

lemma yearly_billing_st_ok:
  assumes "lookup h i = Some (Invoices rows)"
  shows "yearly_billing_st h i
           = (h @ [InvoicesYear (assign_year rows),
                   Yearly (groupby_year_agg (assign_year rows)),
                   Yearly (yearly_billing rows)],
              Inr (length h + 2))"
  using assms by (simp add: yearly_billing_st_def yearly_billing_def new_def setitem_def Let_def)

lemma time_recorded_per_team_st_ok:
  assumes "lookup h t = Some (TimeEntries rows)"
  shows "time_recorded_per_team_st a h t
           = (h @ [TeamHours (groupby_team_agg_hours rows),
                   TeamHours (time_recorded_per_team a rows)],
              Inr (length h + 1))"
  using assms
  by (simp add: time_recorded_per_team_st_def time_recorded_per_team_def new_def Let_def)

lemma deal_profitability_st_ok:
  assumes "lookup h d = Some (Deals rows)"
  shows "deal_profitability_st a h d
           = (h @ [DealsProfit (assign_profit_margin_pct (assign_profit rows)),
                   DealsProfit (deal_profitability a rows)],
              Inr (length h + 1))"
  using assms
  by (simp add: deal_profitability_st_def deal_profitability_def new_def setitem_def Let_def)

lemma monthly_billing_st_err:
  assumes "\<not> (\<exists>rows. lookup h i = Some (Invoices rows))"
  shows "monthly_billing_st nat_str h i = (h, Inl TypeError)"
  using assms by (simp add: monthly_billing_st_def split: option.splits obj.splits)

lemma yearly_billing_st_err:
  assumes "\<not> (\<exists>rows. lookup h i = Some (Invoices rows))"
  shows "yearly_billing_st h i = (h, Inl TypeError)"
  using assms by (simp add: yearly_billing_st_def split: option.splits obj.splits)

lemma time_recorded_per_team_st_err:
  assumes "\<not> (\<exists>rows. lookup h t = Some (TimeEntries rows))"
  shows "time_recorded_per_team_st a h t = (h, Inl TypeError)"
  using assms by (simp add: time_recorded_per_team_st_def split: option.splits obj.splits)

lemma deal_profitability_st_err:
  assumes "\<not> (\<exists>rows. lookup h d = Some (Deals rows))"
  shows "deal_profitability_st a h d = (h, Inl TypeError)"
  using assms by (simp add: deal_profitability_st_def split: option.splits obj.splits)

lemma case_not_Deals:
  "\<not> (\<exists>rows. x = Some (Deals rows)) \<Longrightarrow>
     (case x of Some (Deals r) \<Rightarrow> f r | _ \<Rightarrow> y) = y"
  by (auto split: option.splits obj.splits)

lemma case_not_TimeEntries:
  "\<not> (\<exists>rows. x = Some (TimeEntries rows)) \<Longrightarrow>
     (case x of Some (TimeEntries r) \<Rightarrow> f r | _ \<Rightarrow> y) = y"
  by (auto split: option.splits obj.splits)

lemma case_not_Invoices:
  "\<not> (\<exists>rows. x = Some (Invoices rows)) \<Longrightarrow>
     (case x of Some (Invoices r) \<Rightarrow> f r | _ \<Rightarrow> y) = y"
  by (auto split: option.splits obj.splits)

lemma case_not_Targets:
  "\<not> (\<exists>rows. x = Some (Targets rows)) \<Longrightarrow>
     (case x of Some (Targets r) \<Rightarrow> f r | _ \<Rightarrow> y) = y"
  by (auto split: option.splits obj.splits)

lemma scorecard_loop_st_eq:
  "take (length h) (fst (scorecard_loop_st a h L R ir tg)) = h
   \<and> outcome (scorecard_loop_st a h L R ir tg)
       = (case and_then
                 (iterrows (scorecard_row_of tg (col_sum amount_paid ir)
                              (col_sum merged_row.revenue (merge_outer_fillna0 L R)))
                    (merge_outer_fillna0 L R))
                 (scorecard_frame_sorted a) of
            Inl e \<Rightarrow> Inl e
          | Inr rows \<Rightarrow> Inr (Scorecard rows))"
  by (simp add: scorecard_loop_st_def new_def Let_def outcome_def and_then_def nth_append
        split: sum.splits)

lemma take_append_prefix: "take (length h) ((h @ xs) @ ys) = h"
  by simp

lemma scorecard_loop_st_prefix:
  "take (length h) (fst (scorecard_loop_st a (h @ xs) L R ir tg)) = h"
proof -
  have "take (length (h @ xs)) (fst (scorecard_loop_st a (h @ xs) L R ir tg)) = h @ xs"
    using scorecard_loop_st_eq [of "h @ xs"] by blast
  then have "take (length h) (take (length (h @ xs)) (fst (scorecard_loop_st a (h @ xs) L R ir tg)))
               = take (length h) (h @ xs)"
    by (simp only:)
  then show ?thesis by (simp add: min_def)
qed

lemma lookup_second: "lookup (h @ [x, y]) (Suc (length h)) = Some y"
  by (simp add: lookup_def nth_append)

lemma update_third: "(h @ [x, y, z])[Suc (Suc (length h)) := w] = h @ [x, y, w]"
  by (simp add: list_update_append)

lemma team_scorecard_st_eq:
  assumes d: "d < length h" and t: "t < length h" and i: "i < length h" and g: "g < length h"
  shows "take (length h) (fst (team_scorecard_st a h d t i g)) = h
       \<and> outcome (team_scorecard_st a h d t i g)
           = (case lookup h d of
                Some (Deals dr) \<Rightarrow>
                  (case lookup h t of
                     Some (TimeEntries tr) \<Rightarrow>
                       (case lookup h i of
                          Some (Invoices ir) \<Rightarrow>
                            (case lookup h g of
                               Some (Targets tg) \<Rightarrow>
                                 (case team_scorecard a dr tr ir tg of
                                    Inl e \<Rightarrow> Inl e
                                  | Inr rows \<Rightarrow> Inr (Scorecard rows))
                             | _ \<Rightarrow> Inl TypeError)
                        | _ \<Rightarrow> Inl TypeError)
                   | _ \<Rightarrow> Inl TypeError)
              | _ \<Rightarrow> Inl TypeError)"
proof (cases "\<exists>rows. lookup h d = Some (Deals rows)")
  case False
  then show ?thesis
    by (simp add: team_scorecard_st_def deal_profitability_st_err outcome_def case_not_Deals)
next
  case True
  then obtain dr where dr: "lookup h d = Some (Deals dr)" by blast
  let ?P = "assign_profit_margin_pct (assign_profit dr)"
  let ?L = "assign_profitability_pct (groupby_team_agg_profit (deal_profitability a dr))"
  let ?h2 = "h @ [DealsProfit ?P, DealsProfit (deal_profitability a dr), TeamProfit ?L]"
  have step1: "team_scorecard_st a h d t i g
      = (case time_recorded_per_team_st a ?h2 t of
           (h', Inl e) \<Rightarrow> (h', Inl e)
         | (h', Inr time_team) \<Rightarrow>
             (case lookup h' (Suc (Suc (length h))) of
                Some (TeamProfit l_rows) \<Rightarrow>
                  (case lookup h' time_team of
                     Some (TeamHours r_rows) \<Rightarrow>
                       (case lookup h' i of
                          Some (Invoices i_rows) \<Rightarrow>
                            (case lookup h' g of
                               Some (Targets tg) \<Rightarrow> scorecard_loop_st a h' l_rows r_rows i_rows tg
                             | _ \<Rightarrow> (h', Inl TypeError))
                        | _ \<Rightarrow> (h', Inl TypeError))
                   | _ \<Rightarrow> (h', Inl TypeError))
              | _ \<Rightarrow> (h', Inl TypeError)))"
    by (simp add: team_scorecard_st_def deal_profitability_st_ok [OF dr] lookup_second
          update_third new_def setitem_def Let_def)
  have lt: "lookup ?h2 t = lookup h t" using t by (simp add: lookup_def nth_append)
  show ?thesis
  proof (cases "\<exists>rows. lookup h t = Some (TimeEntries rows)")
    case False
    then have "\<not> (\<exists>rows. lookup ?h2 t = Some (TimeEntries rows))" unfolding lt by simp
    then have "team_scorecard_st a h d t i g = (?h2, Inl TypeError)"
      unfolding step1 by (simp add: time_recorded_per_team_st_err)
    then show ?thesis
      using False by (simp add: outcome_def dr case_not_TimeEntries)
  next
    case True
    then obtain tr where tr: "lookup h t = Some (TimeEntries tr)" by blast
    then have tr2: "lookup ?h2 t = Some (TimeEntries tr)" unfolding lt by simp
    let ?R = "time_recorded_per_team a tr"
    let ?h3 = "h @ [DealsProfit ?P, DealsProfit (deal_profitability a dr), TeamProfit ?L,
                    TeamHours (groupby_team_agg_hours tr), TeamHours ?R]"
    have h3: "?h2 @ [TeamHours (groupby_team_agg_hours tr), TeamHours ?R] = ?h3" by simp
    have li: "lookup ?h3 i = lookup h i" using i by (simp add: lookup_def nth_append)
    have lg: "lookup ?h3 g = lookup h g" using g by (simp add: lookup_def nth_append)
    have l1: "lookup ?h3 (Suc (Suc (length h))) = Some (TeamProfit ?L)"
      by (simp add: lookup_def nth_append)
    have l2: "lookup ?h3 (length ?h2 + 1) = Some (TeamHours ?R)"
      by (simp add: lookup_def nth_append)
    have step2: "team_scorecard_st a h d t i g
        = (case lookup h i of
             Some (Invoices i_rows) \<Rightarrow>
               (case lookup h g of
                  Some (Targets tg) \<Rightarrow> scorecard_loop_st a ?h3 ?L ?R i_rows tg
                | _ \<Rightarrow> (?h3, Inl TypeError))
           | _ \<Rightarrow> (?h3, Inl TypeError))"
      unfolding step1 time_recorded_per_team_st_ok [OF tr2] h3 prod.case sum.case l1 l2 li lg
        option.case obj.case
      by (rule refl)
    show ?thesis
    proof (cases "\<exists>rows. lookup h i = Some (Invoices rows)")
      case False
      then have "team_scorecard_st a h d t i g = (?h3, Inl TypeError)"
        unfolding step2 by (simp add: case_not_Invoices)
      then show ?thesis
        using False by (simp add: outcome_def dr tr case_not_Invoices)
    next
      case True
      then obtain ir where ir: "lookup h i = Some (Invoices ir)" by blast
      show ?thesis
      proof (cases "\<exists>rows. lookup h g = Some (Targets rows)")
        case False
        then have "team_scorecard_st a h d t i g = (?h3, Inl TypeError)"
          unfolding step2 by (simp add: ir case_not_Targets)
        then show ?thesis
          using False by (simp add: outcome_def dr tr ir case_not_Targets)
      next
        case True
        then obtain tg where tg: "lookup h g = Some (Targets tg)" by blast
        have res: "team_scorecard_st a h d t i g = scorecard_loop_st a ?h3 ?L ?R ir tg"
          unfolding step2 by (simp add: ir tg)
        have pure: "team_scorecard a dr tr ir tg
                = and_then
                    (iterrows (scorecard_row_of tg (col_sum amount_paid ir)
                                 (col_sum merged_row.revenue (merge_outer_fillna0 ?L ?R)))
                       (merge_outer_fillna0 ?L ?R))
                    (scorecard_frame_sorted a)"
          by (simp add: team_scorecard_def merged_frame_def Let_def)
        have "take (length h) (fst (team_scorecard_st a h d t i g)) = h"
          unfolding res by (rule scorecard_loop_st_prefix)
        moreover have "outcome (team_scorecard_st a h d t i g)
                 = (case team_scorecard a dr tr ir tg of
                      Inl e \<Rightarrow> Inl e
                    | Inr rows \<Rightarrow> Inr (Scorecard rows))"
          unfolding res pure using scorecard_loop_st_eq [of ?h3 a ?L ?R ir tg] by blast
        ultimately show ?thesis by (simp add: dr tr ir tg)
      qed
    qed
  qed
qed

lemma monthly_billing_st_eq:
  "take (length h) (fst (monthly_billing_st nat_str h i)) = h
   \<and> outcome (monthly_billing_st nat_str h i)
       = (case lookup h i of
            Some (Invoices rows) \<Rightarrow> Inr (Monthly (monthly_billing nat_str rows))
          | _ \<Rightarrow> Inl TypeError)"
proof (cases "\<exists>rows. lookup h i = Some (Invoices rows)")
  case True
  then obtain rows where r: "lookup h i = Some (Invoices rows)" by blast
  show ?thesis
    by (simp add: monthly_billing_st_ok [OF r] r outcome_def nth_append)
next
  case False
  then show ?thesis
    by (simp add: monthly_billing_st_err outcome_def case_not_Invoices)
qed

lemma yearly_billing_st_eq:
  "take (length h) (fst (yearly_billing_st h i)) = h
   \<and> outcome (yearly_billing_st h i)
       = (case lookup h i of
            Some (Invoices rows) \<Rightarrow> Inr (Yearly (yearly_billing rows))
          | _ \<Rightarrow> Inl TypeError)"
proof (cases "\<exists>rows. lookup h i = Some (Invoices rows)")
  case True
  then obtain rows where r: "lookup h i = Some (Invoices rows)" by blast
  show ?thesis
    by (simp add: yearly_billing_st_ok [OF r] r outcome_def nth_append)
next
  case False
  then show ?thesis
    by (simp add: yearly_billing_st_err outcome_def case_not_Invoices)
qed

lemma time_recorded_per_team_st_eq:
  "take (length h) (fst (time_recorded_per_team_st a h t)) = h
   \<and> outcome (time_recorded_per_team_st a h t)
       = (case lookup h t of
            Some (TimeEntries rows) \<Rightarrow> Inr (TeamHours (time_recorded_per_team a rows))
          | _ \<Rightarrow> Inl TypeError)"
proof (cases "\<exists>rows. lookup h t = Some (TimeEntries rows)")
  case True
  then obtain rows where r: "lookup h t = Some (TimeEntries rows)" by blast
  show ?thesis
    by (simp add: time_recorded_per_team_st_ok [OF r] r outcome_def nth_append)
next
  case False
  then show ?thesis
    by (simp add: time_recorded_per_team_st_err outcome_def case_not_TimeEntries)
qed

lemma deal_profitability_st_eq:
  "take (length h) (fst (deal_profitability_st a h d)) = h
   \<and> outcome (deal_profitability_st a h d)
       = (case lookup h d of
            Some (Deals rows) \<Rightarrow> Inr (DealsProfit (deal_profitability a rows))
          | _ \<Rightarrow> Inl TypeError)"
proof (cases "\<exists>rows. lookup h d = Some (Deals rows)")
  case True
  then obtain rows where r: "lookup h d = Some (Deals rows)" by blast
  show ?thesis
    by (simp add: deal_profitability_st_ok [OF r] r outcome_def nth_append)
next
  case False
  then show ?thesis
    by (simp add: deal_profitability_st_err outcome_def case_not_Deals)
qed

lemma prefix_length:
  assumes "take (length h) h' = h" and "r < length h"
  shows "r < length h'"
proof -
  have "length (take (length h) h') = length h" using assms(1) by simp
  then show ?thesis using assms(2) by simp
qed

text \<open>
  C9. Purity and non-mutation. For references to objects of the store, each of the five
  functions (\<open>monthly_billing\<close> under either rendering of a missing period) returns a store
  in which every object that existed before the call is what it was, so neither the tables passed in nor the dict of targets are changed (the working
  copies and results are new objects behind them); and calling the function again, on the
  store the first call left, gives the same table or raises the same exception. By the
  lemmas above (\<open>monthly_billing_st_eq\<close> to \<open>team_scorecard_st_eq\<close>) the table returned holds
  what the function on plain tables computes from the tables referred to.
\<close>

theorem aggregators_leave_arguments_unchanged:
  assumes "invoices < length h" and "deals < length h"
    and "time_entries < length h" and "targets < length h"
  shows "take (length h) (fst (monthly_billing_st nat_str h invoices)) = h
       \<and> outcome (monthly_billing_st nat_str (fst (monthly_billing_st nat_str h invoices)) invoices)
           = outcome (monthly_billing_st nat_str h invoices)
       \<and> take (length h) (fst (yearly_billing_st h invoices)) = h
       \<and> outcome (yearly_billing_st (fst (yearly_billing_st h invoices)) invoices)
           = outcome (yearly_billing_st h invoices)
       \<and> take (length h) (fst (time_recorded_per_team_st a h time_entries)) = h
       \<and> outcome (time_recorded_per_team_st a
                    (fst (time_recorded_per_team_st a h time_entries)) time_entries)
           = outcome (time_recorded_per_team_st a h time_entries)
       \<and> take (length h) (fst (deal_profitability_st a h deals)) = h
       \<and> outcome (deal_profitability_st a (fst (deal_profitability_st a h deals)) deals)
           = outcome (deal_profitability_st a h deals)
       \<and> take (length h) (fst (team_scorecard_st a h deals time_entries invoices targets)) = h
       \<and> outcome (team_scorecard_st a
                    (fst (team_scorecard_st a h deals time_entries invoices targets))
                    deals time_entries invoices targets)
           = outcome (team_scorecard_st a h deals time_entries invoices targets)"
proof -
  have m1: "take (length h) (fst (monthly_billing_st nat_str h invoices)) = h"
    using monthly_billing_st_eq by blast
  have m2: "outcome (monthly_billing_st nat_str (fst (monthly_billing_st nat_str h invoices)) invoices)
           = outcome (monthly_billing_st nat_str h invoices)"
    using monthly_billing_st_eq [of h nat_str invoices]
      monthly_billing_st_eq [of "fst (monthly_billing_st nat_str h invoices)" nat_str invoices]
      lookup_prefix [OF m1 assms(1)]
    by simp
  have y1: "take (length h) (fst (yearly_billing_st h invoices)) = h"
    using yearly_billing_st_eq by blast
  have y2: "outcome (yearly_billing_st (fst (yearly_billing_st h invoices)) invoices)
           = outcome (yearly_billing_st h invoices)"
    using yearly_billing_st_eq [of h invoices]
      yearly_billing_st_eq [of "fst (yearly_billing_st h invoices)" invoices]
      lookup_prefix [OF y1 assms(1)]
    by simp
  have t1: "take (length h) (fst (time_recorded_per_team_st a h time_entries)) = h"
    using time_recorded_per_team_st_eq by blast
  have t2: "outcome (time_recorded_per_team_st a
                    (fst (time_recorded_per_team_st a h time_entries)) time_entries)
           = outcome (time_recorded_per_team_st a h time_entries)"
    using time_recorded_per_team_st_eq [of h a time_entries]
      time_recorded_per_team_st_eq [of "fst (time_recorded_per_team_st a h time_entries)" a time_entries]
      lookup_prefix [OF t1 assms(3)]
    by simp
  have d1: "take (length h) (fst (deal_profitability_st a h deals)) = h"
    using deal_profitability_st_eq by blast
  have d2: "outcome (deal_profitability_st a (fst (deal_profitability_st a h deals)) deals)
           = outcome (deal_profitability_st a h deals)"
    using deal_profitability_st_eq [of h a deals]
      deal_profitability_st_eq [of "fst (deal_profitability_st a h deals)" a deals]
      lookup_prefix [OF d1 assms(2)]
    by simp
  let ?h' = "fst (team_scorecard_st a h deals time_entries invoices targets)"
  note first = team_scorecard_st_eq [OF assms(2) assms(3) assms(1) assms(4), of a]
  have s1: "take (length h) ?h' = h" using first by blast
  note second = team_scorecard_st_eq [OF prefix_length [OF s1 assms(2)]
      prefix_length [OF s1 assms(3)] prefix_length [OF s1 assms(1)]
      prefix_length [OF s1 assms(4)], of a]
  have s2: "outcome (team_scorecard_st a ?h' deals time_entries invoices targets)
           = outcome (team_scorecard_st a h deals time_entries invoices targets)"
    using second [THEN conjunct2] first [THEN conjunct2]
    unfolding lookup_prefix [OF s1 assms(1)] lookup_prefix [OF s1 assms(2)]
      lookup_prefix [OF s1 assms(3)] lookup_prefix [OF s1 assms(4)]
    by (rule trans [OF _ sym])
  from m1 m2 y1 y2 t1 t2 d1 d2 s1 s2 show ?thesis by blast
qed

text \<open>An instance: a store with one table of each kind and the targets of team A.\<close>

theorem aggregators_leave_arguments_unchanged_witness:
  "take 4 (fst (team_scorecard_st stable_argsort
       [Invoices [\<lparr>invoice_number = Some ''INV-1'', contact = Some ''Acme'', status = Some ''PAID'',
                   invoice.date = None, due_date = None, amount_due = 100, amount_paid = 500,
                   total = 600\<rparr>],
        Deals [\<lparr>deal_name = Some ''Deal-1'', deal.team = Some ''A'', close_date = None,
                 deal_value = 1000, cost_to_deliver = 400\<rparr>,
               \<lparr>deal_name = Some ''Deal-2'', deal.team = Some ''B'', close_date = None,
                 deal_value = 3000, cost_to_deliver = 1500\<rparr>],
        TimeEntries [\<lparr>time_entry.date = None, time_entry.team = Some ''A'', project = None,
                       client = None, time_entry.hours = 10, billable = True,
                       time_entry.billable_amount = 800\<rparr>],
        Targets [''A'' \<mapsto> \<lparr>revenue_target = 0, collection_target = 100,
                          utilization_target_hours = 5, profitability_target_pct = 30\<rparr>]]
       1 2 0 3))
     = [Invoices [\<lparr>invoice_number = Some ''INV-1'', contact = Some ''Acme'', status = Some ''PAID'',
                   invoice.date = None, due_date = None, amount_due = 100, amount_paid = 500,
                   total = 600\<rparr>],
        Deals [\<lparr>deal_name = Some ''Deal-1'', deal.team = Some ''A'', close_date = None,
                 deal_value = 1000, cost_to_deliver = 400\<rparr>,
               \<lparr>deal_name = Some ''Deal-2'', deal.team = Some ''B'', close_date = None,
                 deal_value = 3000, cost_to_deliver = 1500\<rparr>],
        TimeEntries [\<lparr>time_entry.date = None, time_entry.team = Some ''A'', project = None,
                       client = None, time_entry.hours = 10, billable = True,
                       time_entry.billable_amount = 800\<rparr>],
        Targets [''A'' \<mapsto> \<lparr>revenue_target = 0, collection_target = 100,
                          utilization_target_hours = 5, profitability_target_pct = 30\<rparr>]]
   \<and> outcome (team_scorecard_st stable_argsort
       (fst (team_scorecard_st stable_argsort
       [Invoices [\<lparr>invoice_number = Some ''INV-1'', contact = Some ''Acme'', status = Some ''PAID'',
                   invoice.date = None, due_date = None, amount_due = 100, amount_paid = 500,
                   total = 600\<rparr>],
        Deals [\<lparr>deal_name = Some ''Deal-1'', deal.team = Some ''A'', close_date = None,
                 deal_value = 1000, cost_to_deliver = 400\<rparr>,
               \<lparr>deal_name = Some ''Deal-2'', deal.team = Some ''B'', close_date = None,
                 deal_value = 3000, cost_to_deliver = 1500\<rparr>],
        TimeEntries [\<lparr>time_entry.date = None, time_entry.team = Some ''A'', project = None,
                       client = None, time_entry.hours = 10, billable = True,
                       time_entry.billable_amount = 800\<rparr>],
        Targets [''A'' \<mapsto> \<lparr>revenue_target = 0, collection_target = 100,
                          utilization_target_hours = 5, profitability_target_pct = 30\<rparr>]]
       1 2 0 3)) 1 2 0 3)
     = Inr (Scorecard
         [\<lparr>scorecard_row.team = ''B'', revenue = 3000, profit = 1500,
            profitability_pct = Fin 50, hours = 0, collected_estimate = 375,
            revenue_vs_target_pct = 0, collection_vs_target_pct = 0,
            utilization_vs_target_pct = 0, profitability_vs_target_pct = Fin 0\<rparr>,
          \<lparr>scorecard_row.team = ''A'', revenue = 1000, profit = 600,
            profitability_pct = Fin 60, hours = 10, collected_estimate = 125,
            revenue_vs_target_pct = 0, collection_vs_target_pct = 125,
            utilization_vs_target_pct = 200, profitability_vs_target_pct = Fin 200\<rparr>])"
proof -
  let ?h = "[Invoices [\<lparr>invoice_number = Some ''INV-1'', contact = Some ''Acme'', status = Some ''PAID'',
                   invoice.date = None, due_date = None, amount_due = 100, amount_paid = 500,
                   total = 600\<rparr>],
        Deals [\<lparr>deal_name = Some ''Deal-1'', deal.team = Some ''A'', close_date = None,
                 deal_value = 1000, cost_to_deliver = 400\<rparr>,
               \<lparr>deal_name = Some ''Deal-2'', deal.team = Some ''B'', close_date = None,
                 deal_value = 3000, cost_to_deliver = 1500\<rparr>],
        TimeEntries [\<lparr>time_entry.date = None, time_entry.team = Some ''A'', project = None,
                       client = None, time_entry.hours = 10, billable = True,
                       time_entry.billable_amount = 800\<rparr>],
        Targets [''A'' \<mapsto> \<lparr>revenue_target = 0, collection_target = 100,
                          utilization_target_hours = 5, profitability_target_pct = 30\<rparr>]]"
  have v: "0 < length ?h" "1 < length ?h" "2 < length ?h" "3 < length ?h" by simp_all
  note T = aggregators_leave_arguments_unchanged [OF v(1) v(2) v(3) v(4),
      where a = stable_argsort]
  have len: "length ?h = 4" by simp
  have a: "take 4 (fst (team_scorecard_st stable_argsort ?h 1 2 0 3)) = ?h"
    using T unfolding len by blast
  have b: "outcome (team_scorecard_st stable_argsort
              (fst (team_scorecard_st stable_argsort ?h 1 2 0 3)) 1 2 0 3)
             = outcome (team_scorecard_st stable_argsort ?h 1 2 0 3)"
    using T by blast
  have o: "outcome (team_scorecard_st stable_argsort ?h 1 2 0 3)
     = Inr (Scorecard
         [\<lparr>scorecard_row.team = ''B'', revenue = 3000, profit = 1500,
            profitability_pct = Fin 50, hours = 0, collected_estimate = 375,
            revenue_vs_target_pct = 0, collection_vs_target_pct = 0,
            utilization_vs_target_pct = 0, profitability_vs_target_pct = Fin 0\<rparr>,
          \<lparr>scorecard_row.team = ''A'', revenue = 1000, profit = 600,
            profitability_pct = Fin 60, hours = 10, collected_estimate = 125,
            revenue_vs_target_pct = 0, collection_vs_target_pct = 125,
            utilization_vs_target_pct = 200, profitability_vs_target_pct = Fin 200\<rparr>])"
    using team_scorecard_st_eq [OF v(2) v(3) v(1) v(4), of stable_argsort]
    by (simp add: lookup_def scorecard_example)
  from a b o show ?thesis by simp
qed

end
